theory Spec2Isabelle
  imports Main "HOL-Library.Word"
begin

unbundle bit_operations_syntax

section \<open>Data model\<close>

text \<open>
  Python \<open>bytes\<close> are lists of 8-bit words, \<open>str\<close> is \<open>string\<close>. The keystrings this
  program handles are ASCII; a character above 127 stands for any non-ASCII code point.
\<close>

type_synonym byte = "8 word"

type_synonym bytes = "byte list"

text \<open>\<open>class SignatureScheme(IntEnum)\<close> of \<open>abstracts/client_keypair.py\<close>.\<close>

datatype SignatureScheme = ED25519 | SECP256K1

fun scheme_value :: "SignatureScheme \<Rightarrow> nat" where
  "scheme_value ED25519 = 0"
| "scheme_value SECP256K1 = 1"

text \<open>
  The exceptions the code raises. \<open>SuiInvalidKeyPair\<close> carries a message; the messages of
  the source are kept apart by a constructor each, with the numbers the f-strings print.
\<close>

datatype keypair_msg =
    PublicKeyExpects nat nat    \<comment> \<open>"Public Key expects N bytes, found M"\<close>
  | PrivateKeyExpects nat nat   \<comment> \<open>"Private Key expects N bytes, found M"\<close>
  | ExpectStrLen nat            \<comment> \<open>"Expect str len of N"\<close>
  | ExpectBytesLen nat          \<comment> \<open>"Expect bytes len of 64" and "... of 65"\<close>
  | SchemeNot SignatureScheme   \<comment> \<open>"Scheme not ED25519" and "Scheme not SECP256K1"\<close>

datatype error =
    SuiInvalidKeyPair keypair_msg
  | SuiInvalidKeystringLength nat
  | NotImplementedError
  | IndexError                  \<comment> \<open>\<open>b[0]\<close> on empty bytes\<close>
  | BinasciiError               \<comment> \<open>\<open>binascii.Error\<close> of \<open>base64.b64decode\<close>\<close>
  | ValueError                  \<comment> \<open>\<open>b64decode\<close> of a non-ASCII string\<close>
  | LibraryError                \<comment> \<open>raised inside PyNaCl or secp256k1 on rejected key material\<close>

text \<open>
  The libraries the module imports and does not define: \<open>base64\<close>, \<open>hashlib\<close>, PyNaCl's
  \<open>VerifyKey\<close> and \<open>SigningKey\<close>, and \<open>secp256k1\<close>. Every function below takes them as the
  record \<open>L\<close>. The four key constructors of the libraries build opaque handles that no
  function of the module reads; what matters here is whether they accept their argument.
\<close>

record lib =
  b64encode :: "bytes \<Rightarrow> string"
  b64decode :: "string \<Rightarrow> error + bytes"
  sha3_256 :: "bytes \<Rightarrow> bytes"
  nacl_VerifyKey :: "string \<Rightarrow> bool"
  nacl_SigningKey :: "string \<Rightarrow> bool"
  secp256k1_PublicKey :: "bytes \<Rightarrow> bool"
  secp256k1_PrivateKey :: "bytes \<Rightarrow> bool"

subsection \<open>Constants of \<open>sui/sui_constants.py\<close>\<close>

text \<open>
  Modelled from the spec: the module \<open>sui/sui_constants.py\<close> is not part of the sources.
  The key lengths are those of the spec's table of byte formats. The two key-pair byte
  lengths are the ones the source's own messages print beside the checks
  ("Expect bytes len of 64", "Expect bytes len of 65"): the tag byte is not counted. The
  keystring length is the one of the doc string of \<open>address_from_keystring\<close> ("a 88 byte
  keypair string"), and the address string length is the spec's 40 characters.
\<close>

definition SUI_KEYPAIR_LEN :: nat where "SUI_KEYPAIR_LEN = 88"

definition ED25519_PUBLICKEY_BYTES_LEN :: nat where "ED25519_PUBLICKEY_BYTES_LEN = 32"

definition ED25519_PRIVATEKEY_BYTES_LEN :: nat where "ED25519_PRIVATEKEY_BYTES_LEN = 32"

definition ED25519_KEYPAIR_BYTES_LEN :: nat where "ED25519_KEYPAIR_BYTES_LEN = 64"

definition SECP256K1_KEYPAIR_BYTES_LEN :: nat where "SECP256K1_KEYPAIR_BYTES_LEN = 65"

definition SECP256K1_PUBLICKEY_BYTES_LEN :: nat where "SECP256K1_PUBLICKEY_BYTES_LEN = 33"

definition SECP256K1_PRIVATEKEY_BYTES_LEN :: nat where "SECP256K1_PRIVATEKEY_BYTES_LEN = 32"

definition SUI_ADDRESS_STRING_LEN :: nat where "SUI_ADDRESS_STRING_LEN = 40"

subsection \<open>\<open>class Key\<close>\<close>

text \<open>
  \<open>Key.__init__\<close> stores its two arguments; the properties \<open>scheme\<close> and \<open>key_bytes\<close>
  read them back. \<open>PublicKey\<close> and \<open>PrivateKey\<close> add nothing to \<open>Key\<close>.
\<close>

record Key =
  scheme :: SignatureScheme
  key_bytes :: bytes

definition Key_init :: "SignatureScheme \<Rightarrow> bytes \<Rightarrow> Key" where
  "Key_init s b = \<lparr>scheme = s, key_bytes = b\<rparr>"

definition Key_to_b64 :: "lib \<Rightarrow> Key \<Rightarrow> string" where
  "Key_to_b64 L self = b64encode L (key_bytes self)"

definition Key_repr :: "lib \<Rightarrow> Key \<Rightarrow> string" where
  "Key_repr L self = Key_to_b64 L self"

text \<open>
  The methods of a key as calls on an object: each returns its value and the object
  after the call. No method of \<open>Key\<close> assigns to \<open>self\<close>.
\<close>

datatype key_op = Get_scheme | Get_key_bytes | Call_to_b64 | Call_repr

datatype key_val = Scheme_val SignatureScheme | Bytes_val bytes | Str_val string

fun Key_call :: "lib \<Rightarrow> key_op \<Rightarrow> Key \<Rightarrow> key_val \<times> Key" where
  "Key_call L Get_scheme self = (Scheme_val (scheme self), self)"
| "Key_call L Get_key_bytes self = (Bytes_val (key_bytes self), self)"
| "Key_call L Call_to_b64 self = (Str_val (Key_to_b64 L self), self)"
| "Key_call L Call_repr self = (Str_val (Key_repr L self), self)"

fun Key_calls :: "lib \<Rightarrow> key_op list \<Rightarrow> Key \<Rightarrow> Key" where
  "Key_calls L [] self = self"
| "Key_calls L (c # cs) self = Key_calls L cs (snd (Key_call L c self))"

subsection \<open>The four key classes of \<open>sui/sui_crypto.py\<close>\<close>

definition SuiPublicKeyED25519 :: "lib \<Rightarrow> bytes \<Rightarrow> error + Key" where
  "SuiPublicKeyED25519 L indata =
     (if length indata \<noteq> ED25519_PUBLICKEY_BYTES_LEN
      then Inl (SuiInvalidKeyPair (PublicKeyExpects ED25519_PUBLICKEY_BYTES_LEN (length indata)))
      else let self = Key_init ED25519 indata in
        if nacl_VerifyKey L (Key_to_b64 L self) then Inr self else Inl LibraryError)"

definition SuiPrivateKeyED25519 :: "lib \<Rightarrow> bytes \<Rightarrow> error + Key" where
  "SuiPrivateKeyED25519 L indata =
     (let dlen = length indata in
      if dlen \<noteq> ED25519_PRIVATEKEY_BYTES_LEN
      then Inl (SuiInvalidKeyPair (PrivateKeyExpects ED25519_PRIVATEKEY_BYTES_LEN dlen))
      else let self = Key_init ED25519 indata in
        if nacl_SigningKey L (Key_to_b64 L self) then Inr self else Inl LibraryError)"

definition SuiPublicKeySECP256K1 :: "lib \<Rightarrow> bytes \<Rightarrow> error + Key" where
  "SuiPublicKeySECP256K1 L indata =
     (if length indata \<noteq> SECP256K1_PUBLICKEY_BYTES_LEN
      then Inl (SuiInvalidKeyPair (PublicKeyExpects SECP256K1_PUBLICKEY_BYTES_LEN (length indata)))
      else let self = Key_init SECP256K1 indata in
        if secp256k1_PublicKey L indata then Inr self else Inl LibraryError)"

definition SuiPrivateKeySECP256K1 :: "lib \<Rightarrow> bytes \<Rightarrow> error + Key" where
  "SuiPrivateKeySECP256K1 L indata =
     (if length indata \<noteq> SECP256K1_PRIVATEKEY_BYTES_LEN
      then Inl (SuiInvalidKeyPair (PrivateKeyExpects SECP256K1_PRIVATEKEY_BYTES_LEN (length indata)))
      else let self = Key_init SECP256K1 indata in
        if secp256k1_PrivateKey L indata then Inr self else Inl LibraryError)"

subsection \<open>The two key-pair classes\<close>

text \<open>
  A key pair holds \<open>_scheme\<close>, \<open>_private_key\<close> and \<open>_public_key\<close>. Each class sets its own
  scheme in \<open>__init__\<close>, so the scheme field tells the variant: an object of
  \<open>SuiKeyPairED25519\<close> is one with \<open>kp_scheme = ED25519\<close>.
\<close>

record KeyPair =
  kp_scheme :: SignatureScheme
  private_key :: Key
  public_key :: Key

text \<open>\<open>SuiKeyPairED25519.__init__\<close> builds the private key first.\<close>

definition SuiKeyPairED25519 :: "lib \<Rightarrow> bytes \<Rightarrow> bytes \<Rightarrow> error + KeyPair" where
  "SuiKeyPairED25519 L pub_key_bytes priv_key_bytes =
     (case SuiPrivateKeyED25519 L priv_key_bytes of
        Inl e \<Rightarrow> Inl e
      | Inr sk \<Rightarrow>
         (case SuiPublicKeyED25519 L pub_key_bytes of
            Inl e \<Rightarrow> Inl e
          | Inr pk \<Rightarrow> Inr \<lparr>kp_scheme = ED25519, private_key = sk, public_key = pk\<rparr>))"

text \<open>\<open>SuiKeyPairSECP256K1.__init__\<close> builds the public key first.\<close>

definition SuiKeyPairSECP256K1 :: "lib \<Rightarrow> bytes \<Rightarrow> bytes \<Rightarrow> error + KeyPair" where
  "SuiKeyPairSECP256K1 L pub_key_bytes priv_key_bytes =
     (case SuiPublicKeySECP256K1 L pub_key_bytes of
        Inl e \<Rightarrow> Inl e
      | Inr pk \<Rightarrow>
         (case SuiPrivateKeySECP256K1 L priv_key_bytes of
            Inl e \<Rightarrow> Inl e
          | Inr sk \<Rightarrow> Inr \<lparr>kp_scheme = SECP256K1, private_key = sk, public_key = pk\<rparr>))"

text \<open>
  \<open>to_bytes\<close> is the same in both classes:
  \<open>self.scheme.to_bytes(1, "little") + self.public_key.key_bytes + self.private_key.key_bytes\<close>.
\<close>

definition KeyPair_to_bytes :: "KeyPair \<Rightarrow> bytes" where
  "KeyPair_to_bytes self =
     [of_nat (scheme_value (kp_scheme self))] @ key_bytes (public_key self)
       @ key_bytes (private_key self)"

definition KeyPair_to_b64 :: "lib \<Rightarrow> KeyPair \<Rightarrow> string" where
  "KeyPair_to_b64 L self = b64encode L (KeyPair_to_bytes self)"

definition SuiKeyPairED25519_from_bytes :: "lib \<Rightarrow> bytes \<Rightarrow> error + KeyPair" where
  "SuiKeyPairED25519_from_bytes L indata =
     (if length indata \<noteq> ED25519_KEYPAIR_BYTES_LEN
      then Inl (SuiInvalidKeyPair (ExpectBytesLen 64))
      else SuiKeyPairED25519 L (take 32 indata) (drop 32 indata))"

definition SuiKeyPairSECP256K1_from_bytes :: "lib \<Rightarrow> bytes \<Rightarrow> error + KeyPair" where
  "SuiKeyPairSECP256K1_from_bytes L indata =
     (if length indata \<noteq> SECP256K1_KEYPAIR_BYTES_LEN
      then Inl (SuiInvalidKeyPair (ExpectBytesLen 65))
      else SuiKeyPairSECP256K1 L (take 33 indata) (drop 33 indata))"

definition SuiKeyPairED25519_from_b64 :: "lib \<Rightarrow> string \<Rightarrow> error + KeyPair" where
  "SuiKeyPairED25519_from_b64 L indata =
     (if length indata \<noteq> SUI_KEYPAIR_LEN
      then Inl (SuiInvalidKeyPair (ExpectStrLen SUI_KEYPAIR_LEN))
      else case b64decode L indata of
        Inl e \<Rightarrow> Inl e
      | Inr base_decode \<Rightarrow>
         (case base_decode of
            [] \<Rightarrow> Inl IndexError
          | t # rest \<Rightarrow>
              if unat t = scheme_value ED25519
              then SuiKeyPairED25519_from_bytes L rest
              else Inl (SuiInvalidKeyPair (SchemeNot ED25519))))"

text \<open>
  \<open>SuiKeyPairSECP256K1.from_b64\<close> as the source has it: on tag 1 it calls
  \<open>SuiKeyPairED25519.from_bytes\<close>.
\<close>

definition SuiKeyPairSECP256K1_from_b64 :: "lib \<Rightarrow> string \<Rightarrow> error + KeyPair" where
  "SuiKeyPairSECP256K1_from_b64 L indata =
     (if length indata \<noteq> SUI_KEYPAIR_LEN
      then Inl (SuiInvalidKeyPair (ExpectStrLen SUI_KEYPAIR_LEN))
      else case b64decode L indata of
        Inl e \<Rightarrow> Inl e
      | Inr base_decode \<Rightarrow>
         (case base_decode of
            [] \<Rightarrow> Inl IndexError
          | t # rest \<Rightarrow>
              if unat t = scheme_value SECP256K1
              then SuiKeyPairED25519_from_bytes L rest
              else Inl (SuiInvalidKeyPair (SchemeNot SECP256K1))))"

text \<open>The class method a variant's \<open>from_bytes\<close> and \<open>from_b64\<close> resolve to.\<close>

fun from_bytes :: "SignatureScheme \<Rightarrow> lib \<Rightarrow> bytes \<Rightarrow> error + KeyPair" where
  "from_bytes ED25519 = SuiKeyPairED25519_from_bytes"
| "from_bytes SECP256K1 = SuiKeyPairSECP256K1_from_bytes"

fun from_b64 :: "SignatureScheme \<Rightarrow> lib \<Rightarrow> string \<Rightarrow> error + KeyPair" where
  "from_b64 ED25519 = SuiKeyPairED25519_from_b64"
| "from_b64 SECP256K1 = SuiKeyPairSECP256K1_from_b64"

text \<open>
  A well-formed key pair is one a class constructor returned.
\<close>

definition wf_keypair :: "lib \<Rightarrow> KeyPair \<Rightarrow> bool" where
  "wf_keypair L kp =
     (case kp_scheme kp of
        ED25519 \<Rightarrow>
          SuiKeyPairED25519 L (key_bytes (public_key kp)) (key_bytes (private_key kp)) = Inr kp
      | SECP256K1 \<Rightarrow>
          SuiKeyPairSECP256K1 L (key_bytes (public_key kp)) (key_bytes (private_key kp)) = Inr kp)"

subsection \<open>\<open>class SuiAddress\<close>\<close>

definition hexdigit :: "nat \<Rightarrow> char" where
  "hexdigit n = ''0123456789abcdef'' ! n"

text \<open>\<open>binascii.hexlify\<close>: two lower-case hex digits for each byte.\<close>

definition hexlify :: "bytes \<Rightarrow> string" where
  "hexlify bs = concat (map (\<lambda>b. [hexdigit (unat b div 16), hexdigit (unat b mod 16)]) bs)"

text \<open>
  \<open>SuiAddress.__init__\<close> keeps the identifier, with \<open>0x\<close> put before it when its length is
  \<open>SUI_ADDRESS_STRING_LEN\<close>, and stores it as \<open>self.address\<close>. (\<open>SuiString\<close> and \<open>SuiType\<close>
  of \<open>sui/sui_types.py\<close> wrap the same string.)
\<close>

record SuiAddress =
  address :: string

definition SuiAddress_init :: "string \<Rightarrow> SuiAddress" where
  "SuiAddress_init identifier =
     \<lparr>address = (if length identifier \<noteq> SUI_ADDRESS_STRING_LEN then identifier
                  else ''0x'' @ identifier)\<rparr>"

text \<open>
  \<open>SuiAddress.from_bytes\<close>: \<open>in_bytes[0]\<close> raises \<open>IndexError\<close> on empty input; the
  slices \<open>[0:33]\<close>, \<open>[0:34]\<close> and \<open>[0:40]\<close> never raise.
\<close>

definition SuiAddress_from_bytes :: "lib \<Rightarrow> bytes \<Rightarrow> error + SuiAddress" where
  "SuiAddress_from_bytes L in_bytes =
     (case in_bytes of
        [] \<Rightarrow> Inl IndexError
      | b # _ \<Rightarrow>
          let digest = (if b = 0 then take 33 in_bytes else take 34 in_bytes);
              hash_bytes = take 40 (hexlify (sha3_256 L digest))
          in Inr (SuiAddress_init hash_bytes))"

definition SuiAddress_from_keypair_string :: "lib \<Rightarrow> string \<Rightarrow> error + SuiAddress" where
  "SuiAddress_from_keypair_string L keystring =
     (case b64decode L keystring of
        Inl e \<Rightarrow> Inl e
      | Inr bs \<Rightarrow> SuiAddress_from_bytes L bs)"

subsection \<open>Module functions\<close>

definition keypair_from_keystring :: "lib \<Rightarrow> string \<Rightarrow> error + KeyPair" where
  "keypair_from_keystring L keystring =
     (if length keystring \<noteq> SUI_KEYPAIR_LEN
      then Inl (SuiInvalidKeystringLength (length keystring))
      else case b64decode L keystring of
        Inl e \<Rightarrow> Inl e
      | Inr addy_bytes \<Rightarrow>
         (case addy_bytes of
            [] \<Rightarrow> Inl IndexError
          | t # rest \<Rightarrow>
              if unat t = scheme_value ED25519 then SuiKeyPairED25519_from_bytes L rest
              else if unat t = scheme_value SECP256K1 then SuiKeyPairSECP256K1_from_bytes L rest
              else Inl NotImplementedError))"

definition address_from_keystring :: "lib \<Rightarrow> string \<Rightarrow> error + SuiAddress" where
  "address_from_keystring L indata =
     (case keypair_from_keystring L indata of
        Inl e \<Rightarrow> Inl e
      | Inr _ \<Rightarrow>
         (case b64decode L indata of
            Inl e \<Rightarrow> Inl e
          | Inr bs \<Rightarrow> SuiAddress_from_bytes L bs))"

text \<open>
  \<open>create_new_address\<close>, after \<open>create_new_keypair\<close> has drawn the key pair \<open>new_kp\<close>:
  the pair of it and \<open>SuiAddress.from_bytes(new_kp.to_bytes())\<close>.
\<close>

definition address_of_new_keypair :: "lib \<Rightarrow> KeyPair \<Rightarrow> error + KeyPair \<times> SuiAddress" where
  "address_of_new_keypair L new_kp =
     (case SuiAddress_from_bytes L (KeyPair_to_bytes new_kp) of
        Inl e \<Rightarrow> Inl e
      | Inr a \<Rightarrow> Inr (new_kp, a))"

section \<open>The imported libraries\<close>

text \<open>
  An instance of \<open>lib\<close>, to run the functions above on concrete inputs: Python's
  \<open>base64\<close> module and \<open>hashlib.sha3_256\<close> as they compute, PyNaCl's two constructors
  (they decode their argument and take any 32 bytes), and the checks of \<open>secp256k1\<close> that
  need no curve arithmetic.
\<close>

subsection \<open>\<open>base64.b64encode\<close> and \<open>base64.b64decode\<close>\<close>

definition b64_alphabet :: string where
  "b64_alphabet = ''ABCDEFGHIJKLMNOPQRSTUVWXYZabcdefghijklmnopqrstuvwxyz0123456789+/''"

definition b64_char :: "nat \<Rightarrow> char" where
  "b64_char n = b64_alphabet ! n"

fun index_of :: "'a \<Rightarrow> 'a list \<Rightarrow> nat option" where
  "index_of x [] = None"
| "index_of x (y # ys) =
     (if x = y then Some 0 else case index_of x ys of None \<Rightarrow> None | Some i \<Rightarrow> Some (Suc i))"

fun py_b64encode :: "bytes \<Rightarrow> string" where
  "py_b64encode [] = []"
| "py_b64encode [a] =
     [b64_char (unat a div 4), b64_char (unat a mod 4 * 16), CHR ''='', CHR ''='']"
| "py_b64encode [a, b] =
     [b64_char (unat a div 4), b64_char (unat a mod 4 * 16 + unat b div 16),
      b64_char (unat b mod 16 * 4), CHR ''='']"
| "py_b64encode (a # b # c # rest) =
     [b64_char (unat a div 4), b64_char (unat a mod 4 * 16 + unat b div 16),
      b64_char (unat b mod 16 * 4 + unat c div 64), b64_char (unat c mod 64)]
     @ py_b64encode rest"

text \<open>
  \<open>binascii.a2b_base64\<close> in its default, non-strict mode (CPython 3.11): characters outside
  the alphabet are skipped, a pad character ends the input once it completes a quad, and
  leftover sextets are an error. The arguments after the input are the position in the
  quad, the bits left over from the last sextet, the pad characters seen, and the output.
\<close>

fun a2b_base64 :: "string \<Rightarrow> nat \<Rightarrow> nat \<Rightarrow> nat \<Rightarrow> bytes \<Rightarrow> error + bytes" where
  "a2b_base64 [] quad_pos leftchar pads out =
     (if quad_pos \<noteq> 0 then Inl BinasciiError else Inr out)"
| "a2b_base64 (ch # rest) quad_pos leftchar pads out =
     (if ch = CHR ''='' then
        (if 2 \<le> quad_pos \<and> 4 \<le> quad_pos + (pads + 1) then Inr out
         else a2b_base64 rest quad_pos leftchar (if 2 \<le> quad_pos then pads + 1 else pads) out)
      else case index_of ch b64_alphabet of
        None \<Rightarrow> a2b_base64 rest quad_pos leftchar pads out
      | Some this_ch \<Rightarrow>
          if quad_pos = 0 then a2b_base64 rest 1 this_ch 0 out
          else if quad_pos = 1 then
            a2b_base64 rest 2 (this_ch mod 16) 0 (out @ [of_nat (leftchar * 4 + this_ch div 16)])
          else if quad_pos = 2 then
            a2b_base64 rest 3 (this_ch mod 4) 0 (out @ [of_nat (leftchar * 16 + this_ch div 4)])
          else a2b_base64 rest 0 0 0 (out @ [of_nat (leftchar * 64 + this_ch)]))"

text \<open>\<open>b64decode\<close> of a \<open>str\<close> first encodes it as ASCII, which raises \<open>ValueError\<close>.\<close>

definition py_b64decode :: "string \<Rightarrow> error + bytes" where
  "py_b64decode s =
     (if list_ex (\<lambda>c. 128 \<le> (of_char c :: nat)) s then Inl ValueError
      else a2b_base64 s 0 0 0 [])"

subsection \<open>\<open>hashlib.sha3_256\<close>\<close>

text \<open>
  SHA3-256 (FIPS 202): Keccak-f[1600] on 25 lanes of 64 bits, lane \<open>(x, y)\<close> at index
  \<open>x + 5 * y\<close>, rate 136 bytes, domain bits \<open>01\<close> and pad10*1, 32 bytes of output.
\<close>

type_synonym lane = "64 word"

definition rotl64 :: "lane \<Rightarrow> nat \<Rightarrow> lane" where
  "rotl64 w n = push_bit n w OR drop_bit (64 - n) w"

definition keccak_rc :: "lane list" where
  "keccak_rc =
    [0x0000000000000001, 0x0000000000008082, 0x800000000000808A, 0x8000000080008000,
     0x000000000000808B, 0x0000000080000001, 0x8000000080008081, 0x8000000000008009,
     0x000000000000008A, 0x0000000000000088, 0x0000000080008009, 0x000000008000000A,
     0x000000008000808B, 0x800000000000008B, 0x8000000000008089, 0x8000000000008003,
     0x8000000000008002, 0x8000000000000080, 0x000000000000800A, 0x800000008000000A,
     0x8000000080008081, 0x8000000000008080, 0x0000000080000001, 0x8000000080008008]"

definition keccak_rot :: "nat list" where
  "keccak_rot = [0, 1, 62, 28, 27,  36, 44, 6, 55, 20,  3, 10, 43, 25, 39,
                 41, 45, 15, 21, 8,  18, 2, 61, 56, 14]"

definition theta :: "lane list \<Rightarrow> lane list" where
  "theta a =
     (let c = map (\<lambda>x. a ! x XOR a ! (x + 5) XOR a ! (x + 10) XOR a ! (x + 15) XOR a ! (x + 20))
                [0..<5];
          d = map (\<lambda>x. c ! ((x + 4) mod 5) XOR rotl64 (c ! ((x + 1) mod 5)) 1) [0..<5]
      in map (\<lambda>i. a ! i XOR d ! (i mod 5)) [0..<25])"

text \<open>Rho and pi: lane \<open>(x, y)\<close>, rotated, moves to \<open>(y, 2x + 3y)\<close>.\<close>

definition rho_pi :: "lane list \<Rightarrow> lane list" where
  "rho_pi a =
     map (\<lambda>i. let x = (i mod 5 + 3 * (i div 5)) mod 5; y = i mod 5
              in rotl64 (a ! (x + 5 * y)) (keccak_rot ! (x + 5 * y))) [0..<25]"

definition chi :: "lane list \<Rightarrow> lane list" where
  "chi b =
     map (\<lambda>i. let x = i mod 5; y = i div 5
              in b ! i XOR (NOT (b ! ((x + 1) mod 5 + 5 * y)) AND b ! ((x + 2) mod 5 + 5 * y)))
         [0..<25]"

definition iota :: "lane \<Rightarrow> lane list \<Rightarrow> lane list" where
  "iota r a = (a ! 0 XOR r) # tl a"

definition keccak_round :: "lane list \<Rightarrow> lane \<Rightarrow> lane list" where
  "keccak_round a r = iota r (chi (rho_pi (theta a)))"

definition keccak_f :: "lane list \<Rightarrow> lane list" where
  "keccak_f a = foldl keccak_round a keccak_rc"

fun lane_of_bytes :: "bytes \<Rightarrow> lane" where
  "lane_of_bytes [] = 0"
| "lane_of_bytes (b # bs) = ucast b OR push_bit 8 (lane_of_bytes bs)"

definition bytes_of_lane :: "lane \<Rightarrow> bytes" where
  "bytes_of_lane w = map (\<lambda>i. ucast (drop_bit (8 * i) w)) [0..<8]"

fun chunks :: "nat \<Rightarrow> 'a list \<Rightarrow> 'a list list" where
  "chunks n [] = []"
| "chunks n (x # xs) =
     (if n = 0 then [x # xs] else take n (x # xs) # chunks n (drop n (x # xs)))"

definition sha3_pad :: "bytes \<Rightarrow> bytes" where
  "sha3_pad m =
     (let q = 136 - length m mod 136
      in if q = 1 then m @ [0x86] else m @ [0x06] @ replicate (q - 2) 0 @ [0x80])"

definition absorb :: "lane list \<Rightarrow> bytes \<Rightarrow> lane list" where
  "absorb s blk = keccak_f (map2 (XOR) s (map lane_of_bytes (chunks 8 blk) @ replicate 8 0))"

definition SHA3_256 :: "bytes \<Rightarrow> bytes" where
  "SHA3_256 m =
     take 32 (concat (map bytes_of_lane
       (foldl absorb (replicate 25 0) (chunks 136 (sha3_pad m)))))"

subsection \<open>PyNaCl and \<open>secp256k1\<close>\<close>

text \<open>
  \<open>VerifyKey(key, encoder=Base64Encoder)\<close> and \<open>SigningKey(seed, encoder=Base64Encoder)\<close>
  decode their first argument and raise unless it is 32 bytes long.
\<close>

definition nacl_key32 :: "string \<Rightarrow> bool" where
  "nacl_key32 s = (case py_b64decode s of Inl _ \<Rightarrow> False | Inr bs \<Rightarrow> length bs = 32)"

text \<open>A big-endian byte string as a number.\<close>

definition int_of_bytes :: "bytes \<Rightarrow> int" where
  "int_of_bytes bs = foldl (\<lambda>acc b. acc * 256 + uint b) 0 bs"

definition secp256k1_n :: int where
  "secp256k1_n = 0xFFFFFFFFFFFFFFFFFFFFFFFFFFFFFFFEBAAEDCE6AF48A03BBFD25E8CD0364141"

definition secp256k1_p :: int where
  "secp256k1_p = 0xFFFFFFFFFFFFFFFFFFFFFFFFFFFFFFFFFFFFFFFFFFFFFFFFFFFFFFFEFFFFFC2F"

text \<open>\<open>secp256k1.PrivateKey(key, raw=True)\<close> takes a 32-byte scalar in \<open>1 .. n - 1\<close>.\<close>

definition secp_seckey_ok :: "bytes \<Rightarrow> bool" where
  "secp_seckey_ok bs = (length bs = 32 \<and> 0 < int_of_bytes bs \<and> int_of_bytes bs < secp256k1_n)"

text \<open>
  \<open>secp256k1.PublicKey(key, raw=True)\<close> parses a compressed point: 33 bytes, a header of
  2 or 3 and a coordinate below the field prime. The library also requires the coordinate
  to lie on the curve; that test is left out here, so this instance takes every key the
  library takes and some it refuses.
\<close>

definition secp_pubkey_ok :: "bytes \<Rightarrow> bool" where
  "secp_pubkey_ok bs =
     (length bs = 33 \<and> (hd bs = 2 \<or> hd bs = 3) \<and> int_of_bytes (tl bs) < secp256k1_p)"

definition pylib :: lib where
  "pylib = \<lparr>b64encode = py_b64encode, b64decode = py_b64decode, sha3_256 = SHA3_256,
            nacl_VerifyKey = nacl_key32, nacl_SigningKey = nacl_key32,
            secp256k1_PublicKey = secp_pubkey_ok, secp256k1_PrivateKey = secp_seckey_ok\<rparr>"

subsection \<open>Key material for the examples\<close>

text \<open>The Ed25519 key of RFC 8032, test 1, and a second seed.\<close>

definition ed_pub :: bytes where
  "ed_pub = [0xd7, 0x5a, 0x98, 0x01, 0x82, 0xb1, 0x0a, 0xb7, 0xd5, 0x4b, 0xfe, 0xd3, 0xc9, 0x64,
             0x07, 0x3a, 0x0e, 0xe1, 0x72, 0xf3, 0xda, 0xa6, 0x23, 0x25, 0xaf, 0x02, 0x1a, 0x68,
             0xf7, 0x07, 0x51, 0x1a]"

definition ed_priv :: bytes where
  "ed_priv = [0x9d, 0x61, 0xb1, 0x9d, 0xef, 0xfd, 0x5a, 0x60, 0xba, 0x84, 0x4a, 0xf4, 0x92, 0xec,
              0x2c, 0xc4, 0x44, 0x49, 0xc5, 0x69, 0x7b, 0x32, 0x69, 0x19, 0x70, 0x3b, 0xac, 0x03,
              0x1c, 0xae, 0x7f, 0x60]"

definition ed_priv' :: bytes where
  "ed_priv' = replicate 32 0x2a"

definition kp_ed :: KeyPair where
  "kp_ed = \<lparr>kp_scheme = ED25519, private_key = Key_init ED25519 ed_priv,
            public_key = Key_init ED25519 ed_pub\<rparr>"

definition kp_ed' :: KeyPair where
  "kp_ed' = \<lparr>kp_scheme = ED25519, private_key = Key_init ED25519 ed_priv',
             public_key = Key_init ED25519 ed_pub\<rparr>"

text \<open>The secp256k1 key with scalar 1: its public key is the generator, compressed.\<close>

definition secp_pub :: bytes where
  "secp_pub = [0x02, 0x79, 0xbe, 0x66, 0x7e, 0xf9, 0xdc, 0xbb, 0xac, 0x55, 0xa0, 0x62, 0x95, 0xce,
               0x87, 0x0b, 0x07, 0x02, 0x9b, 0xfc, 0xdb, 0x2d, 0xce, 0x28, 0xd9, 0x59, 0xf2, 0x81,
               0x5b, 0x16, 0xf8, 0x17, 0x98]"

definition secp_priv :: bytes where
  "secp_priv = replicate 31 0 @ [1]"

definition kp_secp :: KeyPair where
  "kp_secp = \<lparr>kp_scheme = SECP256K1, private_key = Key_init SECP256K1 secp_priv,
              public_key = Key_init SECP256K1 secp_pub\<rparr>"

section \<open>Facts about the module\<close>

lemmas sui_constants =
  SUI_KEYPAIR_LEN_def ED25519_PUBLICKEY_BYTES_LEN_def ED25519_PRIVATEKEY_BYTES_LEN_def
  ED25519_KEYPAIR_BYTES_LEN_def SECP256K1_KEYPAIR_BYTES_LEN_def
  SECP256K1_PUBLICKEY_BYTES_LEN_def SECP256K1_PRIVATEKEY_BYTES_LEN_def
  SUI_ADDRESS_STRING_LEN_def

lemma SuiKeyPairED25519_Inr:
  assumes "SuiKeyPairED25519 L pub priv = Inr kp"
  shows "kp = \<lparr>kp_scheme = ED25519, private_key = Key_init ED25519 priv,
               public_key = Key_init ED25519 pub\<rparr>"
    and "length pub = 32" and "length priv = 32"
  using assms
  by (auto simp: SuiKeyPairED25519_def SuiPublicKeyED25519_def SuiPrivateKeyED25519_def
      sui_constants Let_def split: sum.splits if_splits)

lemma SuiKeyPairSECP256K1_Inr:
  assumes "SuiKeyPairSECP256K1 L pub priv = Inr kp"
  shows "kp = \<lparr>kp_scheme = SECP256K1, private_key = Key_init SECP256K1 priv,
               public_key = Key_init SECP256K1 pub\<rparr>"
    and "length pub = 33" and "length priv = 32"
  using assms
  by (auto simp: SuiKeyPairSECP256K1_def SuiPublicKeySECP256K1_def SuiPrivateKeySECP256K1_def
      sui_constants Let_def split: sum.splits if_splits)

lemma wf_keypair_ED25519:
  assumes "wf_keypair L kp" and "kp_scheme kp = ED25519"
  shows "SuiKeyPairED25519 L (key_bytes (public_key kp)) (key_bytes (private_key kp)) = Inr kp"
    and "length (key_bytes (public_key kp)) = 32"
    and "length (key_bytes (private_key kp)) = 32"
proof -
  show c: "SuiKeyPairED25519 L (key_bytes (public_key kp)) (key_bytes (private_key kp)) = Inr kp"
    using assms by (simp add: wf_keypair_def)
  show "length (key_bytes (public_key kp)) = 32" "length (key_bytes (private_key kp)) = 32"
    using SuiKeyPairED25519_Inr(2,3) [OF c] by simp_all
qed

lemma wf_keypair_SECP256K1:
  assumes "wf_keypair L kp" and "kp_scheme kp = SECP256K1"
  shows "SuiKeyPairSECP256K1 L (key_bytes (public_key kp)) (key_bytes (private_key kp)) = Inr kp"
    and "length (key_bytes (public_key kp)) = 33"
    and "length (key_bytes (private_key kp)) = 32"
proof -
  show c: "SuiKeyPairSECP256K1 L (key_bytes (public_key kp)) (key_bytes (private_key kp)) = Inr kp"
    using assms by (simp add: wf_keypair_def)
  show "length (key_bytes (public_key kp)) = 33" "length (key_bytes (private_key kp)) = 32"
    using SuiKeyPairSECP256K1_Inr(2,3) [OF c] by simp_all
qed

lemma tl_to_bytes:
  "tl (KeyPair_to_bytes kp) = key_bytes (public_key kp) @ key_bytes (private_key kp)"
  by (simp add: KeyPair_to_bytes_def)

lemma length_to_bytes:
  "length (KeyPair_to_bytes kp) =
     Suc (length (key_bytes (public_key kp)) + length (key_bytes (private_key kp)))"
  by (simp add: KeyPair_to_bytes_def)

lemma from_bytes_payload:
  assumes "wf_keypair L kp"
  shows "from_bytes (kp_scheme kp) L (key_bytes (public_key kp) @ key_bytes (private_key kp)) = Inr kp"
proof (cases "kp_scheme kp")
  case ED25519
  note w = wf_keypair_ED25519 [OF assms ED25519]
  show ?thesis
    using w by (simp add: ED25519 SuiKeyPairED25519_from_bytes_def sui_constants)
next
  case SECP256K1
  note w = wf_keypair_SECP256K1 [OF assms SECP256K1]
  show ?thesis
    using w by (simp add: SECP256K1 SuiKeyPairSECP256K1_from_bytes_def sui_constants)
qed

lemma from_bytes_to_bytes_raises:
  assumes "wf_keypair L kp"
  shows "from_bytes (kp_scheme kp) L (KeyPair_to_bytes kp) =
           Inl (SuiInvalidKeyPair (ExpectBytesLen (case kp_scheme kp of ED25519 \<Rightarrow> 64 | SECP256K1 \<Rightarrow> 65)))"
proof (cases "kp_scheme kp")
  case ED25519
  note w = wf_keypair_ED25519 [OF assms ED25519]
  show ?thesis
    using w(2,3) by (simp add: ED25519 SuiKeyPairED25519_from_bytes_def sui_constants length_to_bytes)
next
  case SECP256K1
  note w = wf_keypair_SECP256K1 [OF assms SECP256K1]
  show ?thesis
    using w(2,3) by (simp add: SECP256K1 SuiKeyPairSECP256K1_from_bytes_def sui_constants length_to_bytes)
qed

lemma SuiKeyPairED25519_ok:
  assumes "length pub = 32" and "length priv = 32"
    and "nacl_VerifyKey L (b64encode L pub)" and "nacl_SigningKey L (b64encode L priv)"
  shows "SuiKeyPairED25519 L pub priv =
           Inr \<lparr>kp_scheme = ED25519, private_key = Key_init ED25519 priv,
                public_key = Key_init ED25519 pub\<rparr>"
  using assms
  by (simp add: SuiKeyPairED25519_def SuiPublicKeyED25519_def SuiPrivateKeyED25519_def
      Key_to_b64_def Key_init_def sui_constants)

lemma SuiKeyPairSECP256K1_ok:
  assumes "length pub = 33" and "length priv = 32"
    and "secp256k1_PublicKey L pub" and "secp256k1_PrivateKey L priv"
  shows "SuiKeyPairSECP256K1 L pub priv =
           Inr \<lparr>kp_scheme = SECP256K1, private_key = Key_init SECP256K1 priv,
                public_key = Key_init SECP256K1 pub\<rparr>"
  using assms
  by (simp add: SuiKeyPairSECP256K1_def SuiPublicKeySECP256K1_def SuiPrivateKeySECP256K1_def
      Key_init_def sui_constants)

lemma Key_calls_id: "Key_calls L ops k = k"
proof (induction ops)
  case Nil
  show ?case by simp
next
  case (Cons c cs)
  then show ?case by (cases c) simp_all
qed

lemma SuiKeyPairED25519_from_bytes_Inr:
  assumes "SuiKeyPairED25519_from_bytes L rest = Inr kp"
  shows "kp_scheme kp = ED25519"
    and "key_bytes (public_key kp) @ key_bytes (private_key kp) = rest"
    and "wf_keypair L kp"
proof -
  from assms have len: "length rest = 64"
    and c: "SuiKeyPairED25519 L (take 32 rest) (drop 32 rest) = Inr kp"
    by (simp_all add: SuiKeyPairED25519_from_bytes_def sui_constants split: if_splits)
  note k = SuiKeyPairED25519_Inr(1) [OF c]
  show "kp_scheme kp = ED25519" by (simp add: k)
  show "key_bytes (public_key kp) @ key_bytes (private_key kp) = rest"
    by (simp add: k Key_init_def)
  show "wf_keypair L kp"
    using c by (simp add: wf_keypair_def k Key_init_def)
qed

lemma SuiKeyPairSECP256K1_from_bytes_Inr:
  assumes "SuiKeyPairSECP256K1_from_bytes L rest = Inr kp"
  shows "kp_scheme kp = SECP256K1"
    and "key_bytes (public_key kp) @ key_bytes (private_key kp) = rest"
    and "wf_keypair L kp"
proof -
  from assms have len: "length rest = 65"
    and c: "SuiKeyPairSECP256K1 L (take 33 rest) (drop 33 rest) = Inr kp"
    by (simp_all add: SuiKeyPairSECP256K1_from_bytes_def sui_constants split: if_splits)
  note k = SuiKeyPairSECP256K1_Inr(1) [OF c]
  show "kp_scheme kp = SECP256K1" by (simp add: k)
  show "key_bytes (public_key kp) @ key_bytes (private_key kp) = rest"
    by (simp add: k Key_init_def)
  show "wf_keypair L kp"
    using c by (simp add: wf_keypair_def k Key_init_def)
qed

lemma keypair_from_keystring_dispatch:
  assumes "length keystring = SUI_KEYPAIR_LEN" and "b64decode L keystring = Inr (t # rest)"
  shows "keypair_from_keystring L keystring =
           (if unat t = 0 then SuiKeyPairED25519_from_bytes L rest
            else if unat t = 1 then SuiKeyPairSECP256K1_from_bytes L rest
            else Inl NotImplementedError)"
  using assms by (simp add: keypair_from_keystring_def)

lemma keypair_from_keystring_Inr:
  assumes "keypair_from_keystring L keystring = Inr kp"
  shows "length keystring = SUI_KEYPAIR_LEN"
    and "b64decode L keystring = Inr (KeyPair_to_bytes kp)"
    and "wf_keypair L kp"
proof -
  show len: "length keystring = SUI_KEYPAIR_LEN"
    using assms by (simp add: keypair_from_keystring_def split: if_splits)
  from assms len obtain t rest where dec: "b64decode L keystring = Inr (t # rest)"
    by (auto simp: keypair_from_keystring_def split: sum.splits list.splits)
  note d = keypair_from_keystring_dispatch [OF len dec]
  consider (ed) "unat t = 0" | (secp) "unat t = 1" | (other) "unat t \<noteq> 0" "unat t \<noteq> 1"
    by blast
  then have "t # rest = KeyPair_to_bytes kp \<and> wf_keypair L kp"
  proof cases
    case ed
    then have r: "SuiKeyPairED25519_from_bytes L rest = Inr kp"
      using d assms by simp
    have "t = 0" using ed by (simp add: unat_eq_0)
    then show ?thesis
      using SuiKeyPairED25519_from_bytes_Inr [OF r] by (simp add: KeyPair_to_bytes_def)
  next
    case secp
    then have r: "SuiKeyPairSECP256K1_from_bytes L rest = Inr kp"
      using d assms by simp
    have "unat t = unat (1 :: byte)" using secp by simp
    then have "t = 1" by (simp only: word_unat_eq_iff)
    then show ?thesis
      using SuiKeyPairSECP256K1_from_bytes_Inr [OF r] by (simp add: KeyPair_to_bytes_def)
  next
    case other
    then show ?thesis using d assms by simp
  qed
  then show "b64decode L keystring = Inr (KeyPair_to_bytes kp)" and "wf_keypair L kp"
    using dec by simp_all
qed

lemma key_sha3_256:
  "SuiPublicKeyED25519 (L\<lparr>sha3_256 := H\<rparr>) = SuiPublicKeyED25519 L"
  "SuiPrivateKeyED25519 (L\<lparr>sha3_256 := H\<rparr>) = SuiPrivateKeyED25519 L"
  "SuiPublicKeySECP256K1 (L\<lparr>sha3_256 := H\<rparr>) = SuiPublicKeySECP256K1 L"
  "SuiPrivateKeySECP256K1 (L\<lparr>sha3_256 := H\<rparr>) = SuiPrivateKeySECP256K1 L"
  by (rule ext, simp add: SuiPublicKeyED25519_def SuiPrivateKeyED25519_def
      SuiPublicKeySECP256K1_def SuiPrivateKeySECP256K1_def Key_to_b64_def Let_def)+

lemma keypair_sha3_256:
  "SuiKeyPairED25519 (L\<lparr>sha3_256 := H\<rparr>) = SuiKeyPairED25519 L"
  "SuiKeyPairSECP256K1 (L\<lparr>sha3_256 := H\<rparr>) = SuiKeyPairSECP256K1 L"
  by (rule ext, rule ext, simp add: SuiKeyPairED25519_def SuiKeyPairSECP256K1_def key_sha3_256
      cong: sum.case_cong)+

lemma from_bytes_sha3_256:
  "SuiKeyPairED25519_from_bytes (L\<lparr>sha3_256 := H\<rparr>) = SuiKeyPairED25519_from_bytes L"
  "SuiKeyPairSECP256K1_from_bytes (L\<lparr>sha3_256 := H\<rparr>) = SuiKeyPairSECP256K1_from_bytes L"
  by (rule ext, simp add: SuiKeyPairED25519_from_bytes_def SuiKeyPairSECP256K1_from_bytes_def
      keypair_sha3_256)+

lemma keypair_from_keystring_sha3_256:
  "keypair_from_keystring (L\<lparr>sha3_256 := H\<rparr>) keystring = keypair_from_keystring L keystring"
  by (simp add: keypair_from_keystring_def from_bytes_sha3_256 split: sum.splits list.splits)

lemma address_of_wf_keypair:
  assumes "wf_keypair L kp"
  shows "SuiAddress_from_bytes L (KeyPair_to_bytes kp) =
           Inr (SuiAddress_init (take 40 (hexlify (sha3_256 L
             (of_nat (scheme_value (kp_scheme kp)) # key_bytes (public_key kp))))))"
proof (cases "kp_scheme kp")
  case ED25519
  note w = wf_keypair_ED25519 [OF assms ED25519]
  show ?thesis
    using w(2) by (simp add: SuiAddress_from_bytes_def KeyPair_to_bytes_def ED25519)
next
  case SECP256K1
  note w = wf_keypair_SECP256K1 [OF assms SECP256K1]
  show ?thesis
    using w(2) by (simp add: SuiAddress_from_bytes_def KeyPair_to_bytes_def SECP256K1)
qed

lemma keypair_from_keystring_to_b64:
  assumes "wf_keypair L kp"
    and "length (KeyPair_to_b64 L kp) = SUI_KEYPAIR_LEN"
    and "b64decode L (KeyPair_to_b64 L kp) = Inr (KeyPair_to_bytes kp)"
  shows "keypair_from_keystring L (KeyPair_to_b64 L kp) = Inr kp"
proof -
  have d: "b64decode L (KeyPair_to_b64 L kp) =
             Inr (of_nat (scheme_value (kp_scheme kp)) #
                  (key_bytes (public_key kp) @ key_bytes (private_key kp)))"
    using assms(3) by (simp add: KeyPair_to_bytes_def)
  show ?thesis
    using keypair_from_keystring_dispatch [OF assms(2) d] from_bytes_payload [OF assms(1)]
    by (cases "kp_scheme kp") simp_all
qed

lemma ED25519_from_b64_to_b64:
  assumes "wf_keypair L kp" and "kp_scheme kp = ED25519"
    and "length (KeyPair_to_b64 L kp) = SUI_KEYPAIR_LEN"
    and "b64decode L (KeyPair_to_b64 L kp) = Inr (KeyPair_to_bytes kp)"
  shows "from_b64 (kp_scheme kp) L (KeyPair_to_b64 L kp) = Inr kp"
  using assms(2,3,4) from_bytes_payload [OF assms(1)]
  by (simp add: SuiKeyPairED25519_from_b64_def KeyPair_to_bytes_def)

section \<open>Facts about the libraries\<close>

subsection \<open>\<open>b64decode\<close> reads back what \<open>b64encode\<close> wrote\<close>

lemma b64_chars_all:
  "list_all (\<lambda>n. index_of (b64_char n) b64_alphabet = Some n \<and> b64_char n \<noteq> CHR ''='' \<and>
                  (of_char (b64_char n) :: nat) < 128) [0..<64]"
  by code_simp

lemma b64_char_facts:
  assumes "n < 64"
  shows "index_of (b64_char n) b64_alphabet = Some n" and "b64_char n \<noteq> CHR ''=''"
    and "(of_char (b64_char n) :: nat) < 128"
  using b64_chars_all assms by (simp_all only: list_all_iff) simp_all

lemma a2b_sextet:
  assumes "v < 64"
  shows "a2b_base64 (b64_char v # rest) quad_pos leftchar pads out =
           (if quad_pos = 0 then a2b_base64 rest 1 v 0 out
            else if quad_pos = 1 then
              a2b_base64 rest 2 (v mod 16) 0 (out @ [of_nat (leftchar * 4 + v div 16)])
            else if quad_pos = 2 then
              a2b_base64 rest 3 (v mod 4) 0 (out @ [of_nat (leftchar * 16 + v div 4)])
            else a2b_base64 rest 0 0 0 (out @ [of_nat (leftchar * 64 + v)]))"
  using b64_char_facts(1,2) [OF assms] by simp

lemma a2b_pad:
  "a2b_base64 (CHR ''='' # rest) quad_pos leftchar pads out =
     (if 2 \<le> quad_pos \<and> 4 \<le> quad_pos + (pads + 1) then Inr out
      else a2b_base64 rest quad_pos leftchar (if 2 \<le> quad_pos then pads + 1 else pads) out)"
  by simp

text \<open>Two, three and four sextets from the start of a quad.\<close>

lemma a2b_two:
  assumes "v1 < 64" and "v2 < 64"
  shows "a2b_base64 (b64_char v1 # b64_char v2 # rest) 0 leftchar pads out =
           a2b_base64 rest 2 (v2 mod 16) 0 (out @ [of_nat (v1 * 4 + v2 div 16)])"
  by (simp only: a2b_sextet [OF assms(1)] a2b_sextet [OF assms(2)]) simp

lemma a2b_three:
  assumes "v1 < 64" and "v2 < 64" and "v3 < 64"
  shows "a2b_base64 (b64_char v1 # b64_char v2 # b64_char v3 # rest) 0 leftchar pads out =
           a2b_base64 rest 3 (v3 mod 4) 0
             (out @ [of_nat (v1 * 4 + v2 div 16), of_nat (v2 mod 16 * 16 + v3 div 4)])"
  by (simp only: a2b_two [OF assms(1,2)] a2b_sextet [OF assms(3)]) simp

lemma a2b_four:
  assumes "v1 < 64" and "v2 < 64" and "v3 < 64" and "v4 < 64"
  shows "a2b_base64 (b64_char v1 # b64_char v2 # b64_char v3 # b64_char v4 # rest) 0
            leftchar pads out =
           a2b_base64 rest 0 0 0
             (out @ [of_nat (v1 * 4 + v2 div 16), of_nat (v2 mod 16 * 16 + v3 div 4),
                     of_nat (v3 mod 4 * 64 + v4)])"
  by (simp only: a2b_three [OF assms(1,2,3)] a2b_sextet [OF assms(4)]) simp

lemma sextets:
  fixes x y z :: nat
  assumes "x < 256" and "y < 256" and "z < 256"
  shows "x div 4 < 64" and "x mod 4 * 16 < 64" and "x mod 4 * 16 + y div 16 < 64"
    and "y mod 16 * 4 < 64" and "y mod 16 * 4 + z div 64 < 64" and "z mod 64 < 64"
proof -
  have a: "x mod 4 < 4" "y mod 16 < 16" "y div 16 < 16" "z div 64 < 4"
    using assms by simp_all
  show "x div 4 < 64" using assms by simp
  show "x mod 4 * 16 < 64" using a by linarith
  show "x mod 4 * 16 + y div 16 < 64" using a by linarith
  show "y mod 16 * 4 < 64" using a by linarith
  show "y mod 16 * 4 + z div 64 < 64" using a by linarith
  show "z mod 64 < 64" by simp
qed

lemma octets:
  fixes x y z :: nat
  assumes "x < 256" and "y < 256" and "z < 256"
  shows "x div 4 * 4 + (x mod 4 * 16) div 16 = x"
    and "x div 4 * 4 + (x mod 4 * 16 + y div 16) div 16 = x"
    and "(x mod 4 * 16 + y div 16) mod 16 * 16 + (y mod 16 * 4) div 4 = y"
    and "(x mod 4 * 16 + y div 16) mod 16 * 16 + (y mod 16 * 4 + z div 64) div 4 = y"
    and "(y mod 16 * 4 + z div 64) mod 4 * 64 + z mod 64 = z"
proof -
  have y: "y div 16 < 16" and z: "z div 64 < 4" using assms by simp_all
  have a: "(x mod 4 * 16 + y div 16) div 16 = x mod 4" using y by simp
  have b: "(x mod 4 * 16 + y div 16) mod 16 = y div 16" using y by simp
  have c: "(y mod 16 * 4 + z div 64) div 4 = y mod 16" using z by simp
  have d: "(y mod 16 * 4 + z div 64) mod 4 = z div 64" using z by simp
  show "x div 4 * 4 + (x mod 4 * 16) div 16 = x" by simp
  show "x div 4 * 4 + (x mod 4 * 16 + y div 16) div 16 = x" unfolding a by simp
  show "(x mod 4 * 16 + y div 16) mod 16 * 16 + (y mod 16 * 4) div 4 = y" unfolding b by simp
  show "(x mod 4 * 16 + y div 16) mod 16 * 16 + (y mod 16 * 4 + z div 64) div 4 = y"
    unfolding b c by simp
  show "(y mod 16 * 4 + z div 64) mod 4 * 64 + z mod 64 = z" unfolding d by simp
qed

lemma unat_byte: "unat (b :: byte) < 256"
  using unsigned_less [of b] by simp

lemma a2b_base64_encode:
  "a2b_base64 (py_b64encode bs) 0 leftchar pads out = Inr (out @ bs)"
proof (induction bs arbitrary: leftchar pads out rule: py_b64encode.induct)
  case 1
  show ?case by simp
next
  case (2 a)
  note s = sextets [OF unat_byte [of a] unat_byte [of a] unat_byte [of a]]
  note o = octets [OF unat_byte [of a] unat_byte [of a] unat_byte [of a]]
  have "a2b_base64 (py_b64encode [a]) 0 leftchar pads out =
          a2b_base64 ''=='' 2 (unat a mod 4 * 16 mod 16) 0
            (out @ [of_nat (unat a div 4 * 4 + unat a mod 4 * 16 div 16)])"
    by (simp only: py_b64encode.simps a2b_two [OF s(1) s(2)])
  also have "\<dots> = a2b_base64 ''=='' 2 (unat a mod 4 * 16 mod 16) 0 (out @ [a])"
    by (simp only: o) simp
  also have "\<dots> = Inr (out @ [a])"
    by (simp only: a2b_pad) simp
  finally show ?case .
next
  case (3 a b)
  note s = sextets [OF unat_byte [of a] unat_byte [of b] unat_byte [of b]]
  note o = octets [OF unat_byte [of a] unat_byte [of b] unat_byte [of b]]
  have "a2b_base64 (py_b64encode [a, b]) 0 leftchar pads out =
          a2b_base64 ''='' 3 (unat b mod 16 * 4 mod 4) 0
            (out @ [of_nat (unat a div 4 * 4 + (unat a mod 4 * 16 + unat b div 16) div 16),
                    of_nat ((unat a mod 4 * 16 + unat b div 16) mod 16 * 16
                              + unat b mod 16 * 4 div 4)])"
    by (simp only: py_b64encode.simps a2b_three [OF s(1) s(3) s(4)])
  also have "\<dots> = a2b_base64 ''='' 3 (unat b mod 16 * 4 mod 4) 0 (out @ [a, b])"
    by (simp only: o) simp
  also have "\<dots> = Inr (out @ [a, b])"
    by (simp only: a2b_pad) simp
  finally show ?case .
next
  case (4 a b c rest)
  note s = sextets [OF unat_byte [of a] unat_byte [of b] unat_byte [of c]]
  note o = octets [OF unat_byte [of a] unat_byte [of b] unat_byte [of c]]
  have "a2b_base64 (py_b64encode (a # b # c # rest)) 0 leftchar pads out =
          a2b_base64 (py_b64encode rest) 0 0 0
            (out @ [of_nat (unat a div 4 * 4 + (unat a mod 4 * 16 + unat b div 16) div 16),
                    of_nat ((unat a mod 4 * 16 + unat b div 16) mod 16 * 16
                              + (unat b mod 16 * 4 + unat c div 64) div 4),
                    of_nat ((unat b mod 16 * 4 + unat c div 64) mod 4 * 64 + unat c mod 64)])"
    by (simp only: py_b64encode.simps append.simps a2b_four [OF s(1) s(3) s(5) s(6)])
  also have "\<dots> = a2b_base64 (py_b64encode rest) 0 0 0 (out @ [a, b, c])"
    by (simp only: o) simp
  also have "\<dots> = Inr ((out @ [a, b, c]) @ rest)"
    by (rule "4.IH")
  finally show ?case by simp
qed

lemma ascii_py_b64encode: "\<not> list_ex (\<lambda>c. 128 \<le> (of_char c :: nat)) (py_b64encode bs)"
proof (induction bs rule: py_b64encode.induct)
  case 1
  show ?case by simp
next
  case (2 a)
  note s = sextets [OF unat_byte [of a] unat_byte [of a] unat_byte [of a]]
  show ?case using b64_char_facts(3) [OF s(1)] b64_char_facts(3) [OF s(2)]
    by (simp add: not_le)
next
  case (3 a b)
  note s = sextets [OF unat_byte [of a] unat_byte [of b] unat_byte [of b]]
  show ?case using b64_char_facts(3) [OF s(1)] b64_char_facts(3) [OF s(3)] b64_char_facts(3) [OF s(4)]
    by (simp add: not_le)
next
  case (4 a b c rest)
  note s = sextets [OF unat_byte [of a] unat_byte [of b] unat_byte [of c]]
  show ?case using b64_char_facts(3) [OF s(1)] b64_char_facts(3) [OF s(3)]
      b64_char_facts(3) [OF s(5)] b64_char_facts(3) [OF s(6)] "4.IH"
    by (simp add: not_le)
qed

lemma py_b64decode_encode: "py_b64decode (py_b64encode bs) = Inr bs"
  by (simp add: py_b64decode_def ascii_py_b64encode a2b_base64_encode)

lemma length_py_b64encode: "length (py_b64encode bs) = 4 * ((length bs + 2) div 3)"
proof (induction bs rule: py_b64encode.induct)
  case (4 a b c rest)
  have "(length rest + 5) div 3 = Suc ((length rest + 2) div 3)" by presburger
  with 4 show ?case by (simp add: add.commute)
qed simp_all

subsection \<open>The digest is 32 bytes\<close>

lemma length_keccak_round: "length (keccak_round a r) = 25"
  by (simp add: keccak_round_def iota_def chi_def)

lemma length_keccak_rounds: "rs \<noteq> [] \<Longrightarrow> length (foldl keccak_round a rs) = 25"
  by (cases rs rule: rev_cases) (simp_all add: length_keccak_round)

lemma length_keccak_f: "length (keccak_f a) = 25"
  unfolding keccak_f_def by (rule length_keccak_rounds) (simp add: keccak_rc_def)

lemma length_foldl_absorb: "length s = 25 \<Longrightarrow> length (foldl absorb s blocks) = 25"
  by (cases blocks rule: rev_cases) (simp_all add: absorb_def length_keccak_f)

lemma length_bytes_of_lanes: "length (concat (map bytes_of_lane st)) = 8 * length st"
  by (induction st) (simp_all add: bytes_of_lane_def)

lemma length_SHA3_256: "length (SHA3_256 m) = 32"
  by (simp add: SHA3_256_def length_bytes_of_lanes length_foldl_absorb)

subsection \<open>Hex digits\<close>

lemma hexdigits_all: "list_all (\<lambda>n. hexdigit n \<in> set ''0123456789abcdef'') [0..<16]"
  by code_simp

lemma hexdigit_in: "n < 16 \<Longrightarrow> hexdigit n \<in> set ''0123456789abcdef''"
  using hexdigits_all by (simp only: list_all_iff) simp

lemma length_hexlify: "length (hexlify bs) = 2 * length bs"
  by (induction bs) (simp_all add: hexlify_def)

lemma set_hexlify: "set (hexlify bs) \<subseteq> set ''0123456789abcdef''"
proof (induction bs)
  case Nil
  show ?case by (simp add: hexlify_def)
next
  case (Cons b bs)
  have "unat b < 256" using unsigned_less [of b] by simp
  then have "unat b div 16 < 16" "unat b mod 16 < 16" by simp_all
  then have "hexdigit (unat b div 16) \<in> set ''0123456789abcdef''"
    "hexdigit (unat b mod 16) \<in> set ''0123456789abcdef''"
    by (simp_all only: hexdigit_in)
  with Cons show ?case by (simp add: hexlify_def)
qed

subsection \<open>The address, given 32-byte digests\<close>

lemma SuiAddress_from_bytes_eq:
  assumes "in_bytes \<noteq> []" and "\<forall>m. length (sha3_256 L m) = 32"
  shows "SuiAddress_from_bytes L in_bytes =
           Inr \<lparr>address = ''0x'' @ take 40 (hexlify (sha3_256 L
                  (if hd in_bytes = 0 then take 33 in_bytes else take 34 in_bytes)))\<rparr>"
  using assms
  by (cases in_bytes)
    (simp_all add: SuiAddress_from_bytes_def SuiAddress_init_def sui_constants length_hexlify Let_def)

section \<open>The example keys\<close>

lemma nacl_ed_pub: "nacl_key32 (py_b64encode ed_pub)"
  by code_simp

lemma nacl_ed_priv: "nacl_key32 (py_b64encode ed_priv)"
  by code_simp

lemma nacl_ed_priv': "nacl_key32 (py_b64encode ed_priv')"
  by code_simp

lemma secp_pub_ok: "secp_pubkey_ok secp_pub"
  by code_simp

lemma secp_priv_ok: "secp_seckey_ok secp_priv"
  by code_simp

lemma length_ed_keys: "length ed_pub = 32" "length ed_priv = 32" "length ed_priv' = 32"
  by (simp_all add: ed_pub_def ed_priv_def ed_priv'_def)

lemma length_secp_keys: "length secp_pub = 33" "length secp_priv = 32"
  by (simp_all add: secp_pub_def secp_priv_def)

lemma wf_kp_ed: "wf_keypair pylib kp_ed"
  using SuiKeyPairED25519_ok [of ed_pub ed_priv pylib]
  by (simp add: wf_keypair_def kp_ed_def Key_init_def pylib_def nacl_ed_pub nacl_ed_priv
      length_ed_keys)

lemma wf_kp_ed': "wf_keypair pylib kp_ed'"
  using SuiKeyPairED25519_ok [of ed_pub ed_priv' pylib]
  by (simp add: wf_keypair_def kp_ed'_def Key_init_def pylib_def nacl_ed_pub nacl_ed_priv'
      length_ed_keys)

lemma wf_kp_secp: "wf_keypair pylib kp_secp"
  using SuiKeyPairSECP256K1_ok [of secp_pub secp_priv pylib]
  by (simp add: wf_keypair_def kp_secp_def Key_init_def pylib_def secp_pub_ok secp_priv_ok
      length_secp_keys)

lemma ed_priv_neq: "ed_priv \<noteq> ed_priv'"
  by code_simp

text \<open>
  With Python's \<open>base64\<close>, the keystring of every well-formed key pair has the expected
  length and decodes to the key pair's bytes, so \<open>keypair_from_keystring\<close> rebuilds
  every key pair, and the variant's own \<open>from_b64\<close> rebuilds the Ed25519 ones only.
\<close>

lemma pylib_keystring:
  assumes "wf_keypair pylib kp"
  shows "length (KeyPair_to_b64 pylib kp) = SUI_KEYPAIR_LEN"
    and "b64decode pylib (KeyPair_to_b64 pylib kp) = Inr (KeyPair_to_bytes kp)"
proof -
  have "length (KeyPair_to_bytes kp) = 65 \<or> length (KeyPair_to_bytes kp) = 66"
    using wf_keypair_ED25519(2,3) [OF assms] wf_keypair_SECP256K1(2,3) [OF assms]
    by (cases "kp_scheme kp") (simp_all add: length_to_bytes)
  then show "length (KeyPair_to_b64 pylib kp) = SUI_KEYPAIR_LEN"
    by (auto simp: KeyPair_to_b64_def pylib_def length_py_b64encode sui_constants)
  show "b64decode pylib (KeyPair_to_b64 pylib kp) = Inr (KeyPair_to_bytes kp)"
    by (simp add: KeyPair_to_b64_def pylib_def py_b64decode_encode)
qed

lemma pylib_keypair_from_keystring:
  "wf_keypair pylib kp \<Longrightarrow> keypair_from_keystring pylib (KeyPair_to_b64 pylib kp) = Inr kp"
  by (rule keypair_from_keystring_to_b64) (simp_all add: pylib_keystring)

lemma pylib_from_b64:
  assumes "wf_keypair pylib kp"
  shows "from_b64 (kp_scheme kp) pylib (KeyPair_to_b64 pylib kp) =
           (case kp_scheme kp of
              ED25519 \<Rightarrow> Inr kp
            | SECP256K1 \<Rightarrow> Inl (SuiInvalidKeyPair (ExpectBytesLen 64)))"
proof (cases "kp_scheme kp")
  case ED25519
  show ?thesis
    using ED25519_from_b64_to_b64 [OF assms ED25519 pylib_keystring [OF assms]]
    by (simp add: ED25519)
next
  case SECP256K1
  show ?thesis
    using pylib_keystring [OF assms] wf_keypair_SECP256K1(2,3) [OF assms SECP256K1]
    by (simp add: SECP256K1 SuiKeyPairSECP256K1_from_b64_def KeyPair_to_bytes_def
        SuiKeyPairED25519_from_bytes_def sui_constants)
qed

lemma enc_kp_ed:
  "KeyPair_to_b64 pylib kp_ed =
     ''ANdamAGCsQq31Uv+08lkBzoO4XLz2qYjJa8CGmj3B1EanWGxne/9WmC6hEr0kuwsxERJxWl7MmkZcDusAxyuf2A=''"
  by code_simp

lemma enc_kp_secp:
  "KeyPair_to_b64 pylib kp_secp =
     ''AQJ5vmZ++dy7rFWgYpXOhwsHApv82y3OKNlZ8oFbFvgXmAAAAAAAAAAAAAAAAAAAAAAAAAAAAAAAAAAAAAAAAAAB''"
  by code_simp

lemmas keystring_kp_ed = pylib_keystring [OF wf_kp_ed]

lemmas keystring_kp_secp = pylib_keystring [OF wf_kp_secp]

lemma dec_all_A: "py_b64decode (replicate 88 CHR ''A'') = Inr (replicate 66 0)"
  by code_simp

lemma keypair_from_keystring_all_A:
  "length (replicate 88 CHR ''A'') = SUI_KEYPAIR_LEN"
  "b64decode pylib (replicate 88 CHR ''A'') = Inr (0 # replicate 65 0)"
  "keypair_from_keystring pylib (replicate 88 CHR ''A'') =
     Inl (SuiInvalidKeyPair (ExpectBytesLen 64))"
proof -
  show l: "length (replicate 88 CHR ''A'') = SUI_KEYPAIR_LEN"
    by (simp add: sui_constants)
  have "replicate 66 (0 :: byte) = 0 # replicate 65 0"
    by (simp add: numeral_eq_Suc)
  then show d: "b64decode pylib (replicate 88 CHR ''A'') = Inr (0 # replicate 65 0)"
    by (simp add: pylib_def dec_all_A)
  show "keypair_from_keystring pylib (replicate 88 CHR ''A'') =
     Inl (SuiInvalidKeyPair (ExpectBytesLen 64))"
    using keypair_from_keystring_dispatch [OF l d]
    by (simp add: SuiKeyPairED25519_from_bytes_def sui_constants)
qed

lemma dec_tag2:
  "py_b64decode (''Ag'' @ replicate 86 CHR ''A'') = Inr (2 # replicate 65 0)"
  by code_simp

lemma pylib_digest_32: "\<forall>m. length (sha3_256 pylib m) = 32"
  by (simp add: pylib_def length_SHA3_256)

lemma to_bytes_kp_ed: "KeyPair_to_bytes kp_ed = 0 # ed_pub @ ed_priv"
  by (simp add: KeyPair_to_bytes_def kp_ed_def Key_init_def)

lemma to_bytes_kp_secp: "KeyPair_to_bytes kp_secp = 1 # secp_pub @ secp_priv"
  by (simp add: KeyPair_to_bytes_def kp_secp_def Key_init_def)

lemma address_kp_ed:
  "SuiAddress_from_bytes pylib (KeyPair_to_bytes kp_ed) =
     Inr \<lparr>address = ''0x'' @ take 40 (hexlify (SHA3_256 (0 # ed_pub)))\<rparr>"
  using SuiAddress_from_bytes_eq [OF _ pylib_digest_32, of "KeyPair_to_bytes kp_ed"]
  by (simp add: to_bytes_kp_ed length_ed_keys) (simp add: pylib_def)

lemma address_kp_secp:
  "SuiAddress_from_bytes pylib (KeyPair_to_bytes kp_secp) =
     Inr \<lparr>address = ''0x'' @ take 40 (hexlify (SHA3_256 (1 # secp_pub)))\<rparr>"
  using SuiAddress_from_bytes_eq [OF _ pylib_digest_32, of "KeyPair_to_bytes kp_secp"]
  by (simp add: to_bytes_kp_secp length_secp_keys) (simp add: pylib_def)

section \<open>C1: round trip through bytes\<close>

text \<open>
  C1, as the spec states it: for every scheme and every well-formed key pair \<open>kp\<close>, the
  variant's \<open>from_bytes\<close> on \<open>kp.to_bytes()\<close> succeeds and returns a key pair equal to
  \<open>kp\<close>. The code does not do that: \<open>to_bytes\<close> puts the scheme tag first, and
  \<open>from_bytes\<close> takes the 64 (or 65) bytes without it, which is how \<open>from_b64\<close> and
  \<open>keypair_from_keystring\<close> call it (\<open>base_decode[1:]\<close>). On the Ed25519 key of RFC 8032
  the call raises \<open>SuiInvalidKeyPair("Expect bytes len of 64")\<close>.
\<close>

theorem from_bytes_to_bytes_counterexample:
  "wf_keypair pylib kp_ed \<and>
   from_bytes (kp_scheme kp_ed) pylib (KeyPair_to_bytes kp_ed) =
     Inl (SuiInvalidKeyPair (ExpectBytesLen 64))"
  using from_bytes_to_bytes_raises [OF wf_kp_ed] wf_kp_ed
  by (simp add: kp_ed_def)

text \<open>
  C1, amended: for every scheme and every well-formed key pair \<open>kp\<close>, the variant's
  \<open>from_bytes\<close> on \<open>kp.to_bytes()[1:]\<close>, the serialized form without its leading tag
  byte, succeeds and returns \<open>kp\<close>: the same scheme, public key bytes and private key
  bytes.
\<close>

theorem from_bytes_to_bytes_without_tag:
  "wf_keypair L kp \<Longrightarrow> from_bytes (kp_scheme kp) L (tl (KeyPair_to_bytes kp)) = Inr kp"
  by (simp add: tl_to_bytes from_bytes_payload)

theorem from_bytes_to_bytes_without_tag_witness:
  "wf_keypair pylib kp_ed \<and> from_bytes ED25519 pylib (tl (KeyPair_to_bytes kp_ed)) = Inr kp_ed \<and>
   wf_keypair pylib kp_secp \<and> from_bytes SECP256K1 pylib (tl (KeyPair_to_bytes kp_secp)) = Inr kp_secp"
  using from_bytes_to_bytes_without_tag [OF wf_kp_ed] from_bytes_to_bytes_without_tag [OF wf_kp_secp]
    wf_kp_ed wf_kp_secp
  by (simp add: kp_ed_def kp_secp_def)

section \<open>C2: round trip through base64\<close>

text \<open>
  C2 states that for every scheme \<open>from_b64(kp.to_b64())\<close> rebuilds the key pair. For
  Ed25519 it does (\<open>ED25519_from_b64_to_b64\<close>), and \<open>keypair_from_keystring\<close> rebuilds a
  key pair of either scheme (\<open>keypair_from_keystring_to_b64\<close>). But
  \<open>SuiKeyPairSECP256K1.from_b64\<close> hands the 65 bytes after tag 1 to
  \<open>SuiKeyPairED25519.from_bytes\<close>, which wants 64: for every well-formed secp256k1 key
  pair whose keystring has the expected length and decodes to its bytes, the call raises
  \<open>SuiInvalidKeyPair("Expect bytes len of 64")\<close>. With Python's \<open>base64\<close> every
  well-formed key pair has such a keystring (\<open>pylib_keystring\<close>, \<open>pylib_from_b64\<close>).
\<close>

theorem SECP256K1_from_b64_to_b64_raises:
  assumes "wf_keypair L kp" and "kp_scheme kp = SECP256K1"
    and "length (KeyPair_to_b64 L kp) = SUI_KEYPAIR_LEN"
    and "b64decode L (KeyPair_to_b64 L kp) = Inr (KeyPair_to_bytes kp)"
  shows "from_b64 (kp_scheme kp) L (KeyPair_to_b64 L kp) =
           Inl (SuiInvalidKeyPair (ExpectBytesLen 64))"
  using assms(2,3,4) wf_keypair_SECP256K1(2,3) [OF assms(1,2)]
  by (simp add: SuiKeyPairSECP256K1_from_b64_def KeyPair_to_bytes_def
      SuiKeyPairED25519_from_bytes_def sui_constants)

theorem SECP256K1_from_b64_to_b64_raises_witness:
  "wf_keypair pylib kp_secp \<and> kp_scheme kp_secp = SECP256K1 \<and>
   KeyPair_to_b64 pylib kp_secp =
     ''AQJ5vmZ++dy7rFWgYpXOhwsHApv82y3OKNlZ8oFbFvgXmAAAAAAAAAAAAAAAAAAAAAAAAAAAAAAAAAAAAAAAAAAB'' \<and>
   from_b64 SECP256K1 pylib
     ''AQJ5vmZ++dy7rFWgYpXOhwsHApv82y3OKNlZ8oFbFvgXmAAAAAAAAAAAAAAAAAAAAAAAAAAAAAAAAAAAAAAAAAAB''
     = Inl (SuiInvalidKeyPair (ExpectBytesLen 64)) \<and>
   keypair_from_keystring pylib
     ''AQJ5vmZ++dy7rFWgYpXOhwsHApv82y3OKNlZ8oFbFvgXmAAAAAAAAAAAAAAAAAAAAAAAAAAAAAAAAAAAAAAAAAAB''
     = Inr kp_secp"
proof -
  have s: "kp_scheme kp_secp = SECP256K1" by (simp add: kp_secp_def)
  show ?thesis
    using SECP256K1_from_b64_to_b64_raises [OF wf_kp_secp s keystring_kp_secp]
      keypair_from_keystring_to_b64 [OF wf_kp_secp keystring_kp_secp] wf_kp_secp s
    by (simp add: enc_kp_secp)
qed

section \<open>C3: tag dispatch\<close>

text \<open>
  C3, as the spec states it: a keystring of the right length decodes to an Ed25519 key
  pair when its tag is 0, to a secp256k1 key pair when it is 1, and fails as unsupported
  otherwise. The tag alone does not decide success: the 88 characters \<open>AAA...A\<close> decode
  to 66 zero bytes, tag 0 and 65 more, and \<open>SuiKeyPairED25519.from_bytes\<close> refuses them.
\<close>

theorem keystring_tag_dispatch_counterexample:
  "length (replicate 88 CHR ''A'') = SUI_KEYPAIR_LEN \<and>
   b64decode pylib (replicate 88 CHR ''A'') = Inr (0 # replicate 65 0) \<and>
   keypair_from_keystring pylib (replicate 88 CHR ''A'') =
     Inl (SuiInvalidKeyPair (ExpectBytesLen 64))"
  by (simp only: keypair_from_keystring_all_A simp_thms)

text \<open>
  C3, amended: for every keystring of length \<open>SUI_KEYPAIR_LEN\<close> whose decoding is a tag
  byte \<open>t\<close> and a rest, \<open>keypair_from_keystring\<close> returns what
  \<open>SuiKeyPairED25519.from_bytes\<close> returns on the rest when \<open>t\<close> is 0, what
  \<open>SuiKeyPairSECP256K1.from_bytes\<close> returns on it when \<open>t\<close> is 1, and raises
  \<open>NotImplementedError\<close> for every other tag. A key pair the first returns is an Ed25519
  one, and it returns one when the rest is 64 bytes that PyNaCl accepts; a key pair the
  second returns is a secp256k1 one, and it returns one when the rest is 65 bytes that
  \<open>secp256k1\<close> accepts; a rest of another length raises \<open>SuiInvalidKeyPair\<close>.
\<close>

theorem keystring_tag_dispatch:
  assumes "length keystring = SUI_KEYPAIR_LEN" and "b64decode L keystring = Inr (t # rest)"
  shows "keypair_from_keystring L keystring =
           (if unat t = 0 then SuiKeyPairED25519_from_bytes L rest
            else if unat t = 1 then SuiKeyPairSECP256K1_from_bytes L rest
            else Inl NotImplementedError) \<and>
         (\<forall>kp. SuiKeyPairED25519_from_bytes L rest = Inr kp \<longrightarrow> kp_scheme kp = ED25519) \<and>
         (\<forall>kp. SuiKeyPairSECP256K1_from_bytes L rest = Inr kp \<longrightarrow> kp_scheme kp = SECP256K1) \<and>
         (length rest = 64 \<and> nacl_VerifyKey L (b64encode L (take 32 rest)) \<and>
            nacl_SigningKey L (b64encode L (drop 32 rest)) \<longrightarrow>
          SuiKeyPairED25519_from_bytes L rest =
            Inr \<lparr>kp_scheme = ED25519, private_key = Key_init ED25519 (drop 32 rest),
                 public_key = Key_init ED25519 (take 32 rest)\<rparr>) \<and>
         (length rest = 65 \<and> secp256k1_PublicKey L (take 33 rest) \<and>
            secp256k1_PrivateKey L (drop 33 rest) \<longrightarrow>
          SuiKeyPairSECP256K1_from_bytes L rest =
            Inr \<lparr>kp_scheme = SECP256K1, private_key = Key_init SECP256K1 (drop 33 rest),
                 public_key = Key_init SECP256K1 (take 33 rest)\<rparr>) \<and>
         (length rest \<noteq> 64 \<longrightarrow>
          SuiKeyPairED25519_from_bytes L rest = Inl (SuiInvalidKeyPair (ExpectBytesLen 64))) \<and>
         (length rest \<noteq> 65 \<longrightarrow>
          SuiKeyPairSECP256K1_from_bytes L rest = Inl (SuiInvalidKeyPair (ExpectBytesLen 65)))"
proof (intro conjI allI impI)
  show "keypair_from_keystring L keystring =
           (if unat t = 0 then SuiKeyPairED25519_from_bytes L rest
            else if unat t = 1 then SuiKeyPairSECP256K1_from_bytes L rest
            else Inl NotImplementedError)"
    by (rule keypair_from_keystring_dispatch [OF assms])
next
  fix kp assume "SuiKeyPairED25519_from_bytes L rest = Inr kp"
  then show "kp_scheme kp = ED25519" by (rule SuiKeyPairED25519_from_bytes_Inr(1))
next
  fix kp assume "SuiKeyPairSECP256K1_from_bytes L rest = Inr kp"
  then show "kp_scheme kp = SECP256K1" by (rule SuiKeyPairSECP256K1_from_bytes_Inr(1))
next
  assume "length rest = 64 \<and> nacl_VerifyKey L (b64encode L (take 32 rest)) \<and>
            nacl_SigningKey L (b64encode L (drop 32 rest))"
  then show "SuiKeyPairED25519_from_bytes L rest =
            Inr \<lparr>kp_scheme = ED25519, private_key = Key_init ED25519 (drop 32 rest),
                 public_key = Key_init ED25519 (take 32 rest)\<rparr>"
    by (simp add: SuiKeyPairED25519_from_bytes_def sui_constants SuiKeyPairED25519_ok)
next
  assume "length rest = 65 \<and> secp256k1_PublicKey L (take 33 rest) \<and>
            secp256k1_PrivateKey L (drop 33 rest)"
  then show "SuiKeyPairSECP256K1_from_bytes L rest =
            Inr \<lparr>kp_scheme = SECP256K1, private_key = Key_init SECP256K1 (drop 33 rest),
                 public_key = Key_init SECP256K1 (take 33 rest)\<rparr>"
    by (simp add: SuiKeyPairSECP256K1_from_bytes_def sui_constants SuiKeyPairSECP256K1_ok)
next
  assume "length rest \<noteq> 64"
  then show "SuiKeyPairED25519_from_bytes L rest = Inl (SuiInvalidKeyPair (ExpectBytesLen 64))"
    by (simp add: SuiKeyPairED25519_from_bytes_def sui_constants)
next
  assume "length rest \<noteq> 65"
  then show "SuiKeyPairSECP256K1_from_bytes L rest = Inl (SuiInvalidKeyPair (ExpectBytesLen 65))"
    by (simp add: SuiKeyPairSECP256K1_from_bytes_def sui_constants)
qed

theorem keystring_tag_dispatch_witness:
  "length (KeyPair_to_b64 pylib kp_ed) = SUI_KEYPAIR_LEN \<and>
   b64decode pylib (KeyPair_to_b64 pylib kp_ed) = Inr (0 # ed_pub @ ed_priv) \<and>
   keypair_from_keystring pylib (KeyPair_to_b64 pylib kp_ed) = Inr kp_ed \<and>
   kp_scheme kp_ed = ED25519 \<and>
   length (KeyPair_to_b64 pylib kp_secp) = SUI_KEYPAIR_LEN \<and>
   b64decode pylib (KeyPair_to_b64 pylib kp_secp) = Inr (1 # secp_pub @ secp_priv) \<and>
   keypair_from_keystring pylib (KeyPair_to_b64 pylib kp_secp) = Inr kp_secp \<and>
   kp_scheme kp_secp = SECP256K1 \<and>
   length (''Ag'' @ replicate 86 CHR ''A'') = SUI_KEYPAIR_LEN \<and>
   b64decode pylib (''Ag'' @ replicate 86 CHR ''A'') = Inr (2 # replicate 65 0) \<and>
   keypair_from_keystring pylib (''Ag'' @ replicate 86 CHR ''A'') = Inl NotImplementedError"
proof -
  have d0: "b64decode pylib (KeyPair_to_b64 pylib kp_ed) = Inr (0 # ed_pub @ ed_priv)"
    using keystring_kp_ed(2) by (simp add: KeyPair_to_bytes_def kp_ed_def Key_init_def)
  have d1: "b64decode pylib (KeyPair_to_b64 pylib kp_secp) = Inr (1 # secp_pub @ secp_priv)"
    using keystring_kp_secp(2) by (simp add: KeyPair_to_bytes_def kp_secp_def Key_init_def)
  have l2: "length (''Ag'' @ replicate 86 CHR ''A'') = SUI_KEYPAIR_LEN"
    by (simp add: sui_constants)
  have d2: "b64decode pylib (''Ag'' @ replicate 86 CHR ''A'') = Inr (2 # replicate 65 0)"
    using dec_tag2 by (simp add: pylib_def)
  have p0: "from_bytes ED25519 pylib (ed_pub @ ed_priv) = Inr kp_ed"
    using from_bytes_payload [OF wf_kp_ed] by (simp add: kp_ed_def Key_init_def)
  have p1: "from_bytes SECP256K1 pylib (secp_pub @ secp_priv) = Inr kp_secp"
    using from_bytes_payload [OF wf_kp_secp] by (simp add: kp_secp_def Key_init_def)
  have r0: "keypair_from_keystring pylib (KeyPair_to_b64 pylib kp_ed) = Inr kp_ed"
    using keystring_tag_dispatch [OF keystring_kp_ed(1) d0] p0 by simp
  have r1: "keypair_from_keystring pylib (KeyPair_to_b64 pylib kp_secp) = Inr kp_secp"
    using keystring_tag_dispatch [OF keystring_kp_secp(1) d1] p1 by simp
  have r2: "keypair_from_keystring pylib (''Ag'' @ replicate 86 CHR ''A'') = Inl NotImplementedError"
    using keystring_tag_dispatch [OF l2 d2] by simp
  have s: "kp_scheme kp_ed = ED25519" "kp_scheme kp_secp = SECP256K1"
    by (simp_all add: kp_ed_def kp_secp_def)
  show ?thesis
    using keystring_kp_ed(1) d0 r0 keystring_kp_secp(1) d1 r1 l2 d2 r2 s
    by (simp only: simp_thms)
qed

section \<open>C4: the digest window and the address\<close>

text \<open>
  C4, as the spec states it: for an input of at least 34 bytes the derivation hashes
  bytes \<open>[0:33]\<close> when the first byte is 0 and bytes \<open>[0:34]\<close> otherwise, and the
  resulting address is the first 40 hex characters of the digest. The window is as
  stated, but the address is not the bare hex string: that string is 40 characters long,
  which is \<open>SUI_ADDRESS_STRING_LEN\<close>, so \<open>SuiAddress.__init__\<close> puts \<open>0x\<close> before it. On
  the serialized Ed25519 key of RFC 8032 the address differs from the 40 hex characters.
\<close>

theorem address_derivation_counterexample:
  "34 \<le> length (KeyPair_to_bytes kp_ed) \<and> hd (KeyPair_to_bytes kp_ed) = 0 \<and>
   take 33 (KeyPair_to_bytes kp_ed) = 0 # ed_pub \<and>
   SuiAddress_from_bytes pylib (KeyPair_to_bytes kp_ed) \<noteq>
     Inr \<lparr>address = take 40 (hexlify (sha3_256 pylib (take 33 (KeyPair_to_bytes kp_ed))))\<rparr>"
proof -
  have l: "34 \<le> length (KeyPair_to_bytes kp_ed)" and h: "hd (KeyPair_to_bytes kp_ed) = 0"
    and w: "take 33 (KeyPair_to_bytes kp_ed) = 0 # ed_pub"
    by (simp_all add: to_bytes_kp_ed length_ed_keys)
  have s: "sha3_256 pylib = SHA3_256" by (simp add: pylib_def)
  have "length (take 40 (hexlify (SHA3_256 (0 # ed_pub)))) = 40"
    by (simp add: length_hexlify length_SHA3_256)
  then have "''0x'' @ take 40 (hexlify (SHA3_256 (0 # ed_pub))) \<noteq>
             take 40 (hexlify (SHA3_256 (0 # ed_pub)))"
    by (metis append_self_conv2 list.distinct(1))
  then have "SuiAddress_from_bytes pylib (KeyPair_to_bytes kp_ed) \<noteq>
     Inr \<lparr>address = take 40 (hexlify (sha3_256 pylib (take 33 (KeyPair_to_bytes kp_ed))))\<rparr>"
    unfolding address_kp_ed w s by simp
  with l h w show ?thesis by (intro conjI)
qed

text \<open>
  C4, amended: for every input of at least 34 bytes and a hash with 32-byte digests,
  \<open>SuiAddress.from_bytes\<close> hashes exactly bytes \<open>[0:33]\<close> (33 bytes) when the first byte is
  0 and exactly bytes \<open>[0:34]\<close> (34 bytes) otherwise, and the resulting address is \<open>0x\<close>
  followed by the first 40 hex characters of the digest's hex encoding.
\<close>

theorem address_derivation:
  assumes "34 \<le> length in_bytes" and "\<forall>m. length (sha3_256 L m) = 32"
  shows "SuiAddress_from_bytes L in_bytes =
           Inr \<lparr>address = ''0x'' @ take 40 (hexlify (sha3_256 L
                  (if hd in_bytes = 0 then take 33 in_bytes else take 34 in_bytes)))\<rparr> \<and>
         length (take 33 in_bytes) = 33 \<and> length (take 34 in_bytes) = 34"
proof -
  from assms(1) have "in_bytes \<noteq> []" by auto
  then show ?thesis
    using assms by (simp add: SuiAddress_from_bytes_eq)
qed

theorem address_derivation_witness:
  "34 \<le> length (KeyPair_to_bytes kp_ed) \<and> hd (KeyPair_to_bytes kp_ed) = 0 \<and>
   (\<forall>m. length (sha3_256 pylib m) = 32) \<and>
   SuiAddress_from_bytes pylib (KeyPair_to_bytes kp_ed) =
     Inr \<lparr>address = ''0x'' @ take 40 (hexlify (sha3_256 pylib
            (take 33 (KeyPair_to_bytes kp_ed))))\<rparr> \<and>
   34 \<le> length (KeyPair_to_bytes kp_secp) \<and> hd (KeyPair_to_bytes kp_secp) = 1 \<and>
   SuiAddress_from_bytes pylib (KeyPair_to_bytes kp_secp) =
     Inr \<lparr>address = ''0x'' @ take 40 (hexlify (sha3_256 pylib
            (take 34 (KeyPair_to_bytes kp_secp))))\<rparr>"
proof -
  have l: "34 \<le> length (KeyPair_to_bytes kp_ed)" "34 \<le> length (KeyPair_to_bytes kp_secp)"
    by (simp_all add: to_bytes_kp_ed to_bytes_kp_secp length_ed_keys length_secp_keys)
  have h: "hd (KeyPair_to_bytes kp_ed) = 0" "hd (KeyPair_to_bytes kp_secp) = 1"
    by (simp_all add: to_bytes_kp_ed to_bytes_kp_secp)
  show ?thesis
    using address_derivation [OF l(1) pylib_digest_32] address_derivation [OF l(2) pylib_digest_32]
      l h pylib_digest_32
    by simp
qed

section \<open>C5: the length of the address\<close>

text \<open>
  C5, as the spec states it: the address string that derivation produces is always
  exactly 40 hex characters. With the prefix it is 42 characters, here for the
  serialized secp256k1 key with scalar 1.
\<close>

theorem address_is_0x_and_40_hex_digits_counterexample:
  "SuiAddress_from_bytes pylib (KeyPair_to_bytes kp_secp) =
     Inr \<lparr>address = ''0x'' @ take 40 (hexlify (SHA3_256 (1 # secp_pub)))\<rparr> \<and>
   length (''0x'' @ take 40 (hexlify (SHA3_256 (1 # secp_pub)))) = 42"
  by (simp add: address_kp_secp length_hexlify length_SHA3_256)

text \<open>
  C5, amended: for every non-empty input and a hash with 32-byte digests, the address
  string that derivation produces is \<open>0x\<close> followed by exactly 40 characters, each of them
  a lower-case hex digit.
\<close>

theorem address_is_0x_and_40_hex_digits:
  assumes "in_bytes \<noteq> []" and "\<forall>m. length (sha3_256 L m) = 32"
  shows "\<exists>h. SuiAddress_from_bytes L in_bytes = Inr \<lparr>address = ''0x'' @ h\<rparr> \<and>
             length h = 40 \<and> set h \<subseteq> set ''0123456789abcdef''"
proof -
  let ?h = "take 40 (hexlify (sha3_256 L
              (if hd in_bytes = 0 then take 33 in_bytes else take 34 in_bytes)))"
  have "SuiAddress_from_bytes L in_bytes = Inr \<lparr>address = ''0x'' @ ?h\<rparr>"
    using assms by (simp add: SuiAddress_from_bytes_eq)
  moreover have "length ?h = 40"
    using assms(2) by (simp add: length_hexlify)
  moreover have "set ?h \<subseteq> set ''0123456789abcdef''"
    using set_take_subset set_hexlify by (rule subset_trans)
  ultimately show ?thesis by blast
qed

theorem address_is_0x_and_40_hex_digits_witness:
  "KeyPair_to_bytes kp_secp \<noteq> [] \<and> (\<forall>m. length (sha3_256 pylib m) = 32) \<and>
   (\<exists>h. SuiAddress_from_bytes pylib (KeyPair_to_bytes kp_secp) = Inr \<lparr>address = ''0x'' @ h\<rparr> \<and>
        length h = 40 \<and> set h \<subseteq> set ''0123456789abcdef'')"
proof -
  have n: "KeyPair_to_bytes kp_secp \<noteq> []" by (simp add: to_bytes_kp_secp)
  show ?thesis
    using address_is_0x_and_40_hex_digits [OF n pylib_digest_32] n pylib_digest_32
    by simp
qed

section \<open>C6: key lengths\<close>

text \<open>
  C6: for every scheme and every byte sequence whose length differs from the scheme's
  public-key (respectively private-key) length, the off-by-one lengths included,
  constructing the key fails with \<open>SuiInvalidKeyPair\<close> and its message on the expected and
  the found length; no key object is produced, whatever the libraries would say.
\<close>

theorem key_length_checked:
  "(length indata \<noteq> ED25519_PUBLICKEY_BYTES_LEN \<longrightarrow>
      SuiPublicKeyED25519 L indata =
        Inl (SuiInvalidKeyPair (PublicKeyExpects ED25519_PUBLICKEY_BYTES_LEN (length indata)))) \<and>
   (length indata \<noteq> ED25519_PRIVATEKEY_BYTES_LEN \<longrightarrow>
      SuiPrivateKeyED25519 L indata =
        Inl (SuiInvalidKeyPair (PrivateKeyExpects ED25519_PRIVATEKEY_BYTES_LEN (length indata)))) \<and>
   (length indata \<noteq> SECP256K1_PUBLICKEY_BYTES_LEN \<longrightarrow>
      SuiPublicKeySECP256K1 L indata =
        Inl (SuiInvalidKeyPair (PublicKeyExpects SECP256K1_PUBLICKEY_BYTES_LEN (length indata)))) \<and>
   (length indata \<noteq> SECP256K1_PRIVATEKEY_BYTES_LEN \<longrightarrow>
      SuiPrivateKeySECP256K1 L indata =
        Inl (SuiInvalidKeyPair (PrivateKeyExpects SECP256K1_PRIVATEKEY_BYTES_LEN (length indata))))"
  by (simp add: SuiPublicKeyED25519_def SuiPrivateKeyED25519_def SuiPublicKeySECP256K1_def
      SuiPrivateKeySECP256K1_def)

theorem key_length_checked_witness:
  "SuiPublicKeyED25519 pylib (butlast ed_pub) = Inl (SuiInvalidKeyPair (PublicKeyExpects 32 31)) \<and>
   SuiPublicKeyED25519 pylib (ed_pub @ [0]) = Inl (SuiInvalidKeyPair (PublicKeyExpects 32 33)) \<and>
   SuiPrivateKeyED25519 pylib (butlast ed_priv) = Inl (SuiInvalidKeyPair (PrivateKeyExpects 32 31)) \<and>
   SuiPrivateKeyED25519 pylib (ed_priv @ [0]) = Inl (SuiInvalidKeyPair (PrivateKeyExpects 32 33)) \<and>
   SuiPublicKeySECP256K1 pylib (butlast secp_pub) = Inl (SuiInvalidKeyPair (PublicKeyExpects 33 32)) \<and>
   SuiPublicKeySECP256K1 pylib (secp_pub @ [0]) = Inl (SuiInvalidKeyPair (PublicKeyExpects 33 34)) \<and>
   SuiPrivateKeySECP256K1 pylib (butlast secp_priv) = Inl (SuiInvalidKeyPair (PrivateKeyExpects 32 31)) \<and>
   SuiPrivateKeySECP256K1 pylib (secp_priv @ [0]) = Inl (SuiInvalidKeyPair (PrivateKeyExpects 32 33))"
  using key_length_checked [of "butlast ed_pub" pylib] key_length_checked [of "ed_pub @ [0]" pylib]
    key_length_checked [of "butlast ed_priv" pylib] key_length_checked [of "ed_priv @ [0]" pylib]
    key_length_checked [of "butlast secp_pub" pylib] key_length_checked [of "secp_pub @ [0]" pylib]
    key_length_checked [of "butlast secp_priv" pylib] key_length_checked [of "secp_priv @ [0]" pylib]
  by (simp add: sui_constants length_ed_keys length_secp_keys)

section \<open>C7: keystring length\<close>

text \<open>
  C7: for every input string whose length differs from \<open>SUI_KEYPAIR_LEN\<close>, \<open>from_b64\<close> of
  both variants and \<open>keypair_from_keystring\<close> fail with their length error before any
  base64 decoding: the result is the same whatever decoder \<open>d\<close> stands for
  \<open>base64.b64decode\<close>.
\<close>

theorem keystring_length_checked_first:
  assumes "length indata \<noteq> SUI_KEYPAIR_LEN"
  shows "SuiKeyPairED25519_from_b64 (L\<lparr>b64decode := d\<rparr>) indata =
           Inl (SuiInvalidKeyPair (ExpectStrLen SUI_KEYPAIR_LEN)) \<and>
         SuiKeyPairSECP256K1_from_b64 (L\<lparr>b64decode := d\<rparr>) indata =
           Inl (SuiInvalidKeyPair (ExpectStrLen SUI_KEYPAIR_LEN)) \<and>
         keypair_from_keystring (L\<lparr>b64decode := d\<rparr>) indata =
           Inl (SuiInvalidKeystringLength (length indata))"
  using assms
  by (simp add: SuiKeyPairED25519_from_b64_def SuiKeyPairSECP256K1_from_b64_def
      keypair_from_keystring_def)

theorem keystring_length_checked_first_witness:
  "length (replicate 87 CHR ''A'') \<noteq> SUI_KEYPAIR_LEN \<and>
   SuiKeyPairED25519_from_b64 (pylib\<lparr>b64decode := (\<lambda>s. Inr (map of_char s))\<rparr>) (replicate 87 CHR ''A'') =
     Inl (SuiInvalidKeyPair (ExpectStrLen 88)) \<and>
   SuiKeyPairSECP256K1_from_b64 (pylib\<lparr>b64decode := (\<lambda>s. Inr (map of_char s))\<rparr>) (replicate 87 CHR ''A'') =
     Inl (SuiInvalidKeyPair (ExpectStrLen 88)) \<and>
   keypair_from_keystring (pylib\<lparr>b64decode := (\<lambda>s. Inr (map of_char s))\<rparr>) (replicate 87 CHR ''A'') =
     Inl (SuiInvalidKeystringLength 87)"
  using keystring_length_checked_first
      [where indata = "replicate 87 CHR ''A''" and L = pylib and d = "\<lambda>s. Inr (map of_char s)"]
  by (simp add: sui_constants)

section \<open>C8: address from a keystring\<close>

text \<open>
  C8: \<open>address_from_keystring\<close> first parses the string into a key pair. When that fails
  it fails with the same error and produces no address, whatever the hash function is
  (nothing is hashed); when it succeeds with \<open>kp\<close>, the decoded bytes are the tagged
  serialization of \<open>kp\<close> and the address is derived from the whole of it.
\<close>

theorem address_from_keystring_validates_first:
  "(keypair_from_keystring L indata = Inl e \<longrightarrow>
      address_from_keystring (L\<lparr>sha3_256 := H\<rparr>) indata = Inl e) \<and>
   (keypair_from_keystring L indata = Inr kp \<longrightarrow>
      b64decode L indata = Inr (KeyPair_to_bytes kp) \<and>
      address_from_keystring L indata = SuiAddress_from_bytes L (KeyPair_to_bytes kp) \<and>
      address_from_keystring L indata =
        Inr (SuiAddress_init (take 40 (hexlify (sha3_256 L
          (of_nat (scheme_value (kp_scheme kp)) # key_bytes (public_key kp)))))))"
proof (intro conjI impI)
  assume "keypair_from_keystring L indata = Inl e"
  then show "address_from_keystring (L\<lparr>sha3_256 := H\<rparr>) indata = Inl e"
    by (simp add: address_from_keystring_def keypair_from_keystring_sha3_256)
next
  assume ok: "keypair_from_keystring L indata = Inr kp"
  note k = keypair_from_keystring_Inr [OF ok]
  show "b64decode L indata = Inr (KeyPair_to_bytes kp)" by (rule k(2))
  show eq: "address_from_keystring L indata = SuiAddress_from_bytes L (KeyPair_to_bytes kp)"
    by (simp add: address_from_keystring_def ok k(2))
  show "address_from_keystring L indata =
        Inr (SuiAddress_init (take 40 (hexlify (sha3_256 L
          (of_nat (scheme_value (kp_scheme kp)) # key_bytes (public_key kp))))))"
    by (simp add: eq address_of_wf_keypair [OF k(3)])
qed

theorem address_from_keystring_validates_first_witness:
  "keypair_from_keystring pylib (replicate 88 CHR ''A'') =
     Inl (SuiInvalidKeyPair (ExpectBytesLen 64)) \<and>
   address_from_keystring (pylib\<lparr>sha3_256 := rev\<rparr>) (replicate 88 CHR ''A'') =
     Inl (SuiInvalidKeyPair (ExpectBytesLen 64)) \<and>
   keypair_from_keystring pylib (KeyPair_to_b64 pylib kp_secp) = Inr kp_secp \<and>
   b64decode pylib (KeyPair_to_b64 pylib kp_secp) = Inr (KeyPair_to_bytes kp_secp) \<and>
   address_from_keystring pylib (KeyPair_to_b64 pylib kp_secp) =
     SuiAddress_from_bytes pylib (KeyPair_to_bytes kp_secp)"
proof -
  note ok = keypair_from_keystring_to_b64 [OF wf_kp_secp keystring_kp_secp]
  show ?thesis
    using address_from_keystring_validates_first
        [where L = pylib and indata = "replicate 88 CHR ''A''" and H = rev
          and e = "SuiInvalidKeyPair (ExpectBytesLen 64)" and kp = kp_secp]
      address_from_keystring_validates_first
        [where L = pylib and indata = "KeyPair_to_b64 pylib kp_secp" and H = rev
          and e = "SuiInvalidKeyPair (ExpectBytesLen 64)" and kp = kp_secp]
      keypair_from_keystring_all_A(3) ok
    by simp
qed

section \<open>C9: the address ignores the private key\<close>

text \<open>
  C9: the derived address depends only on the scheme tag and the public-key bytes. For
  any two well-formed key pairs of the same scheme with equal public-key bytes, whatever
  their private-key bytes, \<open>SuiAddress.from_bytes\<close> on their serialized bytes gives the same
  result, and so does \<open>create_new_address\<close>.
\<close>

theorem address_independent_of_private_key:
  assumes "wf_keypair L kp1" and "wf_keypair L kp2"
    and "kp_scheme kp1 = kp_scheme kp2"
    and "key_bytes (public_key kp1) = key_bytes (public_key kp2)"
  shows "SuiAddress_from_bytes L (KeyPair_to_bytes kp1) =
           SuiAddress_from_bytes L (KeyPair_to_bytes kp2) \<and>
         map_sum id snd (address_of_new_keypair L kp1) =
           map_sum id snd (address_of_new_keypair L kp2)"
  using assms(3,4) address_of_wf_keypair [OF assms(1)] address_of_wf_keypair [OF assms(2)]
  by (simp add: address_of_new_keypair_def)

theorem address_independent_of_private_key_witness:
  "wf_keypair pylib kp_ed \<and> wf_keypair pylib kp_ed' \<and> kp_scheme kp_ed = kp_scheme kp_ed' \<and>
   key_bytes (public_key kp_ed) = key_bytes (public_key kp_ed') \<and>
   key_bytes (private_key kp_ed) \<noteq> key_bytes (private_key kp_ed') \<and>
   SuiAddress_from_bytes pylib (KeyPair_to_bytes kp_ed) =
     SuiAddress_from_bytes pylib (KeyPair_to_bytes kp_ed') \<and>
   map_sum id snd (address_of_new_keypair pylib kp_ed) =
     map_sum id snd (address_of_new_keypair pylib kp_ed')"
proof -
  have a: "kp_scheme kp_ed = kp_scheme kp_ed'"
    and b: "key_bytes (public_key kp_ed) = key_bytes (public_key kp_ed')"
    and c: "key_bytes (private_key kp_ed) \<noteq> key_bytes (private_key kp_ed')"
    by (simp_all add: kp_ed_def kp_ed'_def Key_init_def ed_priv_neq)
  show ?thesis
    using address_independent_of_private_key [OF wf_kp_ed wf_kp_ed' a b] wf_kp_ed wf_kp_ed' a b c
    by simp
qed

section \<open>C10: a key keeps its bytes and scheme\<close>

text \<open>
  C10: for every public or private key that one of the four constructors returns,
  \<open>key_bytes\<close> is exactly the byte sequence supplied to the constructor (no tag before it,
  nothing cut) and \<open>scheme\<close> is the scheme of the class; \<open>to_b64\<close> encodes exactly these
  bytes, and after any sequence of calls on the key both are as they were.
\<close>

theorem key_keeps_bytes_and_scheme:
  assumes "SuiPublicKeyED25519 L indata = Inr k \<and> s = ED25519 \<or>
           SuiPrivateKeyED25519 L indata = Inr k \<and> s = ED25519 \<or>
           SuiPublicKeySECP256K1 L indata = Inr k \<and> s = SECP256K1 \<or>
           SuiPrivateKeySECP256K1 L indata = Inr k \<and> s = SECP256K1"
  shows "key_bytes k = indata \<and> scheme k = s \<and> Key_to_b64 L k = b64encode L indata \<and>
         key_bytes (Key_calls L ops k) = indata \<and> scheme (Key_calls L ops k) = s"
proof -
  have "k = Key_init s indata"
    using assms
    by (auto simp: SuiPublicKeyED25519_def SuiPrivateKeyED25519_def SuiPublicKeySECP256K1_def
        SuiPrivateKeySECP256K1_def Let_def split: if_splits)
  then show ?thesis
    by (simp add: Key_calls_id Key_init_def Key_to_b64_def)
qed

theorem key_keeps_bytes_and_scheme_witness:
  "SuiPublicKeySECP256K1 pylib secp_pub = Inr (Key_init SECP256K1 secp_pub) \<and>
   key_bytes (Key_init SECP256K1 secp_pub) = secp_pub \<and>
   scheme (Key_init SECP256K1 secp_pub) = SECP256K1 \<and>
   Key_to_b64 pylib (Key_init SECP256K1 secp_pub) = b64encode pylib secp_pub \<and>
   key_bytes (Key_calls pylib [Call_to_b64, Call_repr, Get_scheme] (Key_init SECP256K1 secp_pub))
     = secp_pub \<and>
   scheme (Key_calls pylib [Call_to_b64, Call_repr, Get_scheme] (Key_init SECP256K1 secp_pub))
     = SECP256K1"
proof -
  have c: "SuiPublicKeySECP256K1 pylib secp_pub = Inr (Key_init SECP256K1 secp_pub)"
    by (simp add: SuiPublicKeySECP256K1_def sui_constants length_secp_keys pylib_def secp_pub_ok)
  show ?thesis
    using c key_keeps_bytes_and_scheme
      [of pylib secp_pub "Key_init SECP256K1 secp_pub" SECP256K1
        "[Call_to_b64, Call_repr, Get_scheme]"]
    by simp
qed

end
